theory Spec2Isabelle
  imports Complex_Main "HOL-Library.Word"
begin

section \<open>Strings of the runtime\<close>

text \<open>
  A JavaScript string is a sequence of UTF-16 code units. The message texts of the chat
  screen contain emoji (surrogate pairs) and other characters beyond ASCII, so strings
  are modelled as lists of 16-bit words; \<open>js\<close> embeds an ASCII literal, and code units
  outside ASCII (and the two quote characters) are written as numbers.
\<close>

type_synonym codeunit = "16 word"
type_synonym jsstring = "codeunit list"

definition js :: "string \<Rightarrow> jsstring" where
  "js s = map of_char s"

text \<open>\<open>String.prototype.startsWith\<close> and \<open>String.prototype.includes\<close>.\<close>

fun startsWith :: "jsstring \<Rightarrow> jsstring \<Rightarrow> bool" where
  "startsWith s [] = True"
| "startsWith [] (k # ks) = False"
| "startsWith (c # cs) (k # ks) = (c = k \<and> startsWith cs ks)"

fun includes_js :: "jsstring \<Rightarrow> jsstring \<Rightarrow> bool" where
  "includes_js [] k = (k = [])"
| "includes_js (c # cs) k = (startsWith (c # cs) k \<or> includes_js cs k)"

text \<open>
  \<open>String.prototype.toLowerCase\<close> is a built-in of the runtime. The model maps the
  Basic Latin capitals \<open>A\<close>..\<open>Z\<close> to their small letters and leaves every other code
  unit as it is: the case mapping of characters beyond ASCII is not part of the model.
  Every keyword the chat screen searches for consists of ASCII small letters and \<open>@\<close>.
  Beyond ASCII the runtime maps two characters to text with an ASCII letter, the Kelvin
  sign (to \<open>k\<close>) and the capital I with dot above (to \<open>i\<close> and a combining dot); no
  keyword contains \<open>k\<close> and none ends in \<open>i\<close>, so they add no occurrence of a keyword.
\<close>

definition toLowerCase :: "jsstring \<Rightarrow> jsstring" where
  "toLowerCase s = map (\<lambda>c. if 0x41 \<le> c \<and> c \<le> 0x5A then c + 0x20 else c) s"

text \<open>
  \<open>String.prototype.trim\<close> removes the white space and line terminator code points of
  ECMAScript from both ends; all of them are single code units.
\<close>

definition isWhiteSpace :: "codeunit \<Rightarrow> bool" where
  "isWhiteSpace c \<longleftrightarrow>
     c \<in> {0x0009, 0x000A, 0x000B, 0x000C, 0x000D, 0x0020, 0x00A0, 0x1680,
          0x2028, 0x2029, 0x202F, 0x205F, 0x3000, 0xFEFF}
     \<or> (0x2000 \<le> c \<and> c \<le> 0x200A)"

definition trim :: "jsstring \<Rightarrow> jsstring" where
  "trim s = rev (dropWhile isWhiteSpace (rev (dropWhile isWhiteSpace s)))"

text \<open>\<open>String.prototype.substring(0, n)\<close>: the first \<open>n\<close> code units.\<close>

definition substring0 :: "nat \<Rightarrow> jsstring \<Rightarrow> jsstring" where
  "substring0 n s = take n s"

section \<open>The fallback suggestion selector\<close>

text \<open>The six texts returned by \<open>getFallbackSuggestion\<close>, in the order of the source.\<close>

definition routeSuggestion :: jsstring where
  "routeSuggestion =
     js ''\<newline>\<newline>'' @
     [0xD83D, 0xDDFA, 0xFE0F] @
     js '' **For route planning:** Try '' @
     [0x0022] @
     js ''I need to go from [location] to [destination]'' @
     [0x0022] @
     js '' or check Google Maps/Ola Maps for live navigation.''"

definition billSuggestion :: jsstring where
  "billSuggestion =
     js ''\<newline>\<newline>'' @
     [0xD83D, 0xDCB0] @
     js '' **For bill processing:** Upload a clear photo of your bill, '' @
     js ''or try describing the bill details (amount, due date, provider).''"

definition groupSuggestion :: jsstring where
  "groupSuggestion =
     js ''\<newline>\<newline>'' @
     [0xD83D, 0xDC65] @
     js '' **For group features:** Try '' @
     [0x0022] @
     js ''@Sahaay summary of last 3 days'' @
     [0x0022] @
     js '' or '' @
     [0x0022] @
     js ''summarize recent messages'' @
     [0x0022] @
     js '' for conversation insights.''"

definition weatherSuggestion :: jsstring where
  "weatherSuggestion =
     js ''\<newline>\<newline>'' @
     [0xD83C, 0xDF24, 0xFE0F] @
     js '' **For weather:** Check weather apps or try '' @
     [0x0022] @
     js ''What'' @
     [0x0027] @
     js ''s the weather like in [city]?'' @
     [0x0022]"

definition translateSuggestion :: jsstring where
  "translateSuggestion =
     js ''\<newline>\<newline>'' @
     [0xD83C, 0xDF0D] @
     js '' **For translation:** Try Google Translate or specify the languages: '' @
     [0x0022] @
     js ''Translate [text] from [language] to [language]'' @
     [0x0022]"

definition defaultSuggestion :: jsstring where
  "defaultSuggestion =
     js ''\<newline>\<newline>'' @
     [0xD83D, 0xDCA1] @
     js '' **Try asking about:** Routes, bills, weather, translations, '' @
     js ''or group summaries. Be specific for better results!''"

definition getFallbackSuggestion :: "jsstring \<Rightarrow> jsstring" where
  "getFallbackSuggestion message =
     (let lowerMessage = toLowerCase message in
      if includes_js lowerMessage (js ''route'') \<or> includes_js lowerMessage (js ''traffic'')
         \<or> includes_js lowerMessage (js ''direction'')
      then routeSuggestion
      else if includes_js lowerMessage (js ''bill'') \<or> includes_js lowerMessage (js ''payment'')
         \<or> includes_js lowerMessage (js ''electricity'') \<or> includes_js lowerMessage (js ''water'')
      then billSuggestion
      else if includes_js lowerMessage (js ''summary'') \<or> includes_js lowerMessage (js ''group'')
         \<or> includes_js lowerMessage (js ''@sahaay'')
      then groupSuggestion
      else if includes_js lowerMessage (js ''weather'') \<or> includes_js lowerMessage (js ''temperature'')
      then weatherSuggestion
      else if includes_js lowerMessage (js ''translate'') \<or> includes_js lowerMessage (js ''meaning'')
      then translateSuggestion
      else defaultSuggestion)"

subsection \<open>The selector as the specification words it\<close>

text \<open>
  The specification describes the selector as a choice of the first matching keyword
  category in a fixed priority order. That description is written down on its own, to be
  compared with the function of the source.
\<close>

datatype category = Route | Billing | GroupSummary | Weather | Translation | Generic

fun spec_keywords :: "category \<Rightarrow> jsstring list" where
  "spec_keywords Route = [js ''route'', js ''traffic'', js ''direction'']"
| "spec_keywords Billing = [js ''bill'', js ''payment'', js ''electricity'', js ''water'']"
| "spec_keywords GroupSummary = [js ''summary'', js ''group'', js ''@sahaay'']"
| "spec_keywords Weather = [js ''weather'', js ''temperature'']"
| "spec_keywords Translation = [js ''translate'', js ''meaning'']"
| "spec_keywords Generic = []"

definition spec_priority :: "category list" where
  "spec_priority = [Route, Billing, GroupSummary, Weather, Translation]"

definition spec_matches :: "jsstring \<Rightarrow> category \<Rightarrow> bool" where
  "spec_matches lowered c = list_ex (includes_js lowered) (spec_keywords c)"

definition spec_category :: "jsstring \<Rightarrow> category" where
  "spec_category lowered =
     (case find (spec_matches lowered) spec_priority of Some c \<Rightarrow> c | None \<Rightarrow> Generic)"

fun spec_suggestion :: "category \<Rightarrow> jsstring" where
  "spec_suggestion Route = routeSuggestion"
| "spec_suggestion Billing = billSuggestion"
| "spec_suggestion GroupSummary = groupSuggestion"
| "spec_suggestion Weather = weatherSuggestion"
| "spec_suggestion Translation = translateSuggestion"
| "spec_suggestion Generic = defaultSuggestion"

section \<open>Messages\<close>

datatype sender = User | AI

datatype message_type = Text | Image | Location | Bill

text \<open>
  \<open>confidence\<close> is a JavaScript number. The chat screen stores the literals \<open>0\<close>,
  \<open>0.1\<close> and \<open>0.95\<close> and the number the mood collaborator returned; it never
  computes with them, so a real number stands for the stored value.
\<close>

record Metadata =
  confidence :: "real option"
  needsPermission :: "jsstring option"
  actionItems :: "jsstring list option"
  disclaimer :: "jsstring option"

text \<open>The fields \<open>id\<close> and \<open>type\<close> of the source are \<open>id'\<close> and \<open>type'\<close> here.\<close>

record Message =
  id' :: jsstring
  content :: jsstring
  sender :: sender
  timestamp :: jsstring
  type' :: message_type
  metadata :: "Metadata option"

text \<open>A thrown value: an \<open>Error\<close> object with its message, or any other value.\<close>

datatype thrown = Error jsstring | OtherValue

text \<open>Decimal digits of a number, as a template literal prints \<open>Date.now()\<close>.\<close>

fun toStringNat :: "nat \<Rightarrow> jsstring" where
  "toStringNat n =
     (if n < 10 then [of_nat (48 + n)]
      else toStringNat (n div 10) @ [of_nat (48 + n mod 10)])"

declare toStringNat.simps [simp del]

definition msgId :: "nat \<Rightarrow> jsstring" where
  "msgId n = js ''msg-'' @ toStringNat n"

section \<open>The AI service and the other collaborators\<close>

text \<open>
  The values the AI service exchanges with the chat screen. The fields \<open>confidence\<close> and
  \<open>suggestions\<close> of a mood analysis are \<open>mood_confidence\<close> and \<open>mood_suggestions\<close>, the
  field \<open>suggestions\<close> of a location context is \<open>area_suggestions\<close>, and the fields
  \<open>mood\<close> and \<open>location\<close> of the generation context are \<open>ctx_mood\<close> and
  \<open>ctx_location\<close>.
\<close>

record MoodAnalysis =
  mood :: jsstring
  mood_confidence :: real
  mood_suggestions :: "jsstring list"

record LocationContext =
  area :: jsstring
  area_suggestions :: "jsstring list"

text \<open>\<open>new Date(msg.timestamp)\<close>: the date object made from the stored timestamp text.\<close>

datatype jsdate = NewDate jsstring

record AIServiceMessage =
  h_id :: jsstring
  h_content :: jsstring
  h_sender :: sender
  h_timestamp :: jsdate
  h_type :: message_type
  h_metadata :: "Metadata option"

record GenerationContext =
  ctx_mood :: MoodAnalysis
  ctx_location :: LocationContext
  messageHistory :: "AIServiceMessage list"
  isGroupMention :: bool
  specificRequest :: jsstring

text \<open>The calls made to the AI service, the notifications and the error log are traces.\<close>

datatype ai_call =
  InitializeConfig
| DetectMood jsstring
| GetHyperlocalContext jsstring jsstring
| GenerateResponse jsstring GenerationContext

datatype toast = ToastError jsstring | ToastInfo jsstring

datatype console_line = ConsoleError jsstring | ConsoleErrorOf jsstring thrown

text \<open>
  The places where the chat screen writes to the message store. Each is named after the
  operation label the source passes to \<open>handleKVError\<close> at that place.
\<close>

datatype operation =
  AddUserMessage | AddAIMessage | AddFallbackMessage
| AddImageMessage | AddBillResponse | AddErrorMessage

fun operationLabel :: "operation \<Rightarrow> jsstring" where
  "operationLabel AddUserMessage = js ''add user message''"
| "operationLabel AddAIMessage = js ''add AI message''"
| "operationLabel AddFallbackMessage = js ''add fallback message''"
| "operationLabel AddImageMessage = js ''add image message''"
| "operationLabel AddBillResponse = js ''add bill response''"
| "operationLabel AddErrorMessage = js ''add error message''"

text \<open>
  What the surroundings of one invocation decide: the wall clock when the message of an
  operation is built (\<open>Date.now()\<close> and \<open>new Date().toISOString()\<close>), whether the store
  write of an operation throws, the helpers \<open>handleKVError\<close> (its result is the message
  of the application error) and \<open>sanitizeKVKey\<close> of \<open>utils/errorHandling\<close>, and the
  outcomes of the four functions of the AI service (\<open>Inl\<close>: the promise rejects).
  \<open>locationRejectsFirst\<close> says, for the case that both enrichment promises reject,
  whether the one of \<open>getHyperlocalContext\<close> rejects before the one of \<open>detectMood\<close>:
  \<open>Promise.all\<close> rejects with the rejection that comes first in time.
\<close>

record world =
  dateNow :: "operation \<Rightarrow> nat"
  toISOString :: "operation \<Rightarrow> jsstring"
  setMessagesThrows :: "operation \<Rightarrow> thrown option"
  handleKVError :: "thrown \<Rightarrow> jsstring \<Rightarrow> jsstring option \<Rightarrow> jsstring"
  sanitizeKVKey :: "jsstring \<Rightarrow> jsstring"
  initializeConfig :: "thrown option"
  detectMood :: "jsstring \<Rightarrow> thrown + MoodAnalysis"
  getHyperlocalContext :: "jsstring \<Rightarrow> jsstring \<Rightarrow> thrown + LocationContext"
  generateResponse :: "jsstring \<Rightarrow> GenerationContext \<Rightarrow> thrown + jsstring"
  locationRejectsFirst :: bool

text \<open>
  The properties of the component. \<open>onChatUpdate\<close> is optional; when present it maps the
  chat id and the preview to \<open>None\<close> (it returns) or to the value it throws. \<open>onBack\<close> is
  not called by the functions modelled here.
\<close>

record ChatInterfaceProps =
  chatId :: jsstring
  userConsents :: "jsstring \<rightharpoonup> bool"
  onChatUpdate :: "(jsstring \<Rightarrow> jsstring \<Rightarrow> thrown option) option"

section \<open>The state of the chat screen\<close>

text \<open>
  The component state (\<open>message\<close>, \<open>isTyping\<close>, \<open>isSending\<close>), the message list of the
  chat in the key-value store (\<open>None\<close>: no value yet), and the traces of the effects:
  store writes attempted, toasts shown, errors logged, calls to the AI service, calls of
  \<open>onChatUpdate\<close>, and the delays of the timers set and not yet fired.

  One invocation of a handler is modelled as one step from state to state: the state a
  handler reads is the state at its start, and nothing else runs between its awaits.
\<close>

record state =
  message :: jsstring
  isTyping :: bool
  isSending :: bool
  messages :: "Message list option"
  storeCalls :: "operation list"
  toasts :: "toast list"
  console :: "console_line list"
  aiCalls :: "ai_call list"
  chatUpdates :: "(jsstring \<times> jsstring) list"
  timers :: "nat list"

text \<open>\<open>messages || []\<close>.\<close>

definition orEmpty :: "'a list option \<Rightarrow> 'a list" where
  "orEmpty prev = (case prev of None \<Rightarrow> [] | Some currentMessages \<Rightarrow> currentMessages)"

text \<open>
  The updater every write passes to \<open>setMessages\<close>:
  \<open>prev => { const currentMessages = prev || []; return [...currentMessages, m] }\<close>.
\<close>

definition appendTo :: "Message \<Rightarrow> Message list option \<Rightarrow> Message list" where
  "appendTo m prev = (let currentMessages = orEmpty prev in currentMessages @ [m])"

text \<open>
  Modelled from the spec: the setter of the hook \<open>useKV\<close> (\<open>hooks/useKV\<close> is not among
  the sources). The store applies the update function to the last known sequence; a
  failure of the underlying storage surfaces as a thrown error and leaves the sequence
  as it was. The result is the thrown value, if any, and the new state.
\<close>

definition setMessages ::
  "world \<Rightarrow> operation \<Rightarrow> (Message list option \<Rightarrow> Message list) \<Rightarrow> state \<Rightarrow> thrown option \<times> state" where
  "setMessages w operation update s =
     (let s' = s\<lparr>storeCalls := storeCalls s @ [operation]\<rparr> in
      case setMessagesThrows w operation of
        Some error \<Rightarrow> (Some error, s')
      | None \<Rightarrow> (None, s'\<lparr>messages := Some (update (messages s'))\<rparr>))"

definition toastError :: "jsstring \<Rightarrow> state \<Rightarrow> state" where
  "toastError text s = s\<lparr>toasts := toasts s @ [ToastError text]\<rparr>"

definition consoleError :: "console_line \<Rightarrow> state \<Rightarrow> state" where
  "consoleError line s = s\<lparr>console := console s @ [line]\<rparr>"

definition kvKey :: "world \<Rightarrow> ChatInterfaceProps \<Rightarrow> jsstring" where
  "kvKey w p = js ''chat-messages-'' @ sanitizeKVKey w (chatId p)"

text \<open>\<open>userConsents.moodDetection\<close> as a condition: true only for a key stored as true.\<close>

definition consent :: "ChatInterfaceProps \<Rightarrow> jsstring \<Rightarrow> bool" where
  "consent p name \<longleftrightarrow> userConsents p name = Some True"

section \<open>Sending a message (ChatInterface)\<close>

text \<open>The messages \<open>sendMessage\<close> builds.\<close>

definition userMessage :: "world \<Rightarrow> jsstring \<Rightarrow> Message" where
  "userMessage w text =
     \<lparr>id' = msgId (dateNow w AddUserMessage),
      content = text,
      sender = User,
      timestamp = toISOString w AddUserMessage,
      type' = Text,
      metadata = None\<rparr>"

definition aiDisclaimer :: jsstring where
  "aiDisclaimer = js ''AI-generated response. Verify important information independently.''"

definition aiMessage :: "world \<Rightarrow> jsstring \<Rightarrow> MoodAnalysis \<Rightarrow> Message" where
  "aiMessage w aiResponseContent moodAnalysis =
     \<lparr>id' = msgId (dateNow w AddAIMessage + 1),
      content = aiResponseContent,
      sender = AI,
      timestamp = toISOString w AddAIMessage,
      type' = Text,
      metadata = Some \<lparr>confidence = Some (mood_confidence moodAnalysis),
                       needsPermission = None,
                       actionItems = None,
                       disclaimer = Some aiDisclaimer\<rparr>\<rparr>"

definition troubleshootingText :: jsstring where
  "troubleshootingText =
     js ''I'' @
     [0x0027] @
     js ''m currently having trouble connecting to the AI service. This '' @
     js ''could be because:\<newline>\<newline>'' @
     [0xD83D, 0xDD27] @
     js '' **Configuration needed:** Go to Settings '' @
     [0x2192] @
     js '' AI Configuration to set up your AI provider\<newline>\<newline>'' @
     [0xD83C, 0xDF10] @
     js '' **Connection issues:** Check your internet connection\<newline>\<newline>'' @
     [0x2699, 0xFE0F] @
     js '' **Service temporarily unavailable:** Please try again in a '' @
     js ''moment\<newline>\<newline>**Based on your message, here are '' @
     js ''some immediate suggestions:**''"

definition fallbackDisclaimer :: jsstring where
  "fallbackDisclaimer =
     js ''This is a fallback response due to AI service unavailability. '' @
     js ''Please configure your AI provider in Settings for full functionality.''"

definition fallbackMessage :: "world \<Rightarrow> jsstring \<Rightarrow> Message" where
  "fallbackMessage w currentMessage =
     \<lparr>id' = msgId (dateNow w AddFallbackMessage + 1),
      content = troubleshootingText @ getFallbackSuggestion currentMessage,
      sender = AI,
      timestamp = toISOString w AddFallbackMessage,
      type' = Text,
      metadata = Some \<lparr>confidence = Some (1 / 10),
                       needsPermission = None,
                       actionItems = None,
                       disclaimer = Some fallbackDisclaimer\<rparr>\<rparr>"

text \<open>The defaults used when a consent is not given.\<close>

definition defaultMood :: MoodAnalysis where
  "defaultMood = \<lparr>mood = js ''neutral'', mood_confidence = 0, mood_suggestions = []\<rparr>"

definition defaultLocation :: LocationContext where
  "defaultLocation = \<lparr>area = [], area_suggestions = []\<rparr>"

definition toAIServiceMessage :: "Message \<Rightarrow> AIServiceMessage" where
  "toAIServiceMessage msg =
     \<lparr>h_id = id' msg,
      h_content = content msg,
      h_sender = (if sender msg = User then User else AI),
      h_timestamp = NewDate (timestamp msg),
      h_type = type' msg,
      h_metadata = metadata msg\<rparr>"

text \<open>
  Lines 142 to 168: \<open>initializeConfig\<close>, the two enrichment calls behind their consents
  and the request for the generation call. The result is the request, or the value thrown
  on the way, together with the calls made to the AI service. Both enrichment calls are
  started before \<open>Promise.all\<close> waits for them, so a rejection of one does not keep the
  other from being called; when both reject, the value thrown is the rejection that came
  first, as the world says. The message history is built from the list the component
  rendered with.
\<close>

definition gatherContext ::
  "world \<Rightarrow> ChatInterfaceProps \<Rightarrow> Message list option \<Rightarrow> jsstring
     \<Rightarrow> (thrown + GenerationContext) \<times> ai_call list" where
  "gatherContext w p renderedMessages currentMessage =
     (case initializeConfig w of
        Some error \<Rightarrow> (Inl error, [InitializeConfig])
      | None \<Rightarrow>
          (let moodResult =
                (if consent p (js ''moodDetection'') then detectMood w currentMessage
                 else Inr defaultMood);
              locationResult =
                (if consent p (js ''locationServices'')
                 then getHyperlocalContext w (js ''Bangalore'') currentMessage
                 else Inr defaultLocation);
              calls =
                [InitializeConfig]
                @ (if consent p (js ''moodDetection'') then [DetectMood currentMessage] else [])
                @ (if consent p (js ''locationServices'')
                   then [GetHyperlocalContext (js ''Bangalore'') currentMessage] else [])
          in (case moodResult of
               Inl moodError \<Rightarrow>
                 (case locationResult of
                    Inl locationError \<Rightarrow>
                      (Inl (if locationRejectsFirst w then locationError else moodError),
                       calls)
                  | Inr locationContext \<Rightarrow> (Inl moodError, calls))
             | Inr moodAnalysis \<Rightarrow>
                 (case locationResult of
                    Inl error \<Rightarrow> (Inl error, calls)
                  | Inr locationContext \<Rightarrow>
                      (Inr \<lparr>ctx_mood = moodAnalysis,
                            ctx_location = locationContext,
                            messageHistory = map toAIServiceMessage (orEmpty renderedMessages),
                            isGroupMention =
                              includes_js (toLowerCase currentMessage) (js ''@sahaay''),
                            specificRequest = currentMessage\<rparr>,
                       calls)))))"

text \<open>
  Lines 171 to 194: the reply is stored and the chat list is told. A failure of the store,
  or of the callback, is reported by a toast.
\<close>

definition deliverReply ::
  "world \<Rightarrow> ChatInterfaceProps \<Rightarrow> Message \<Rightarrow> state \<Rightarrow> state" where
  "deliverReply w p reply s =
     (case setMessages w AddAIMessage (appendTo reply) s of
        (Some error, s1) \<Rightarrow>
          toastError (handleKVError w error (js ''add AI message'') None) s1
      | (None, s1) \<Rightarrow>
          (case onChatUpdate p of
             None \<Rightarrow> s1
           | Some callback \<Rightarrow>
               (let s2 = s1\<lparr>chatUpdates :=
                             chatUpdates s1 @ [(chatId p, substring0 100 (content reply))]\<rparr>
               in (case callback (chatId p) (substring0 100 (content reply)) of
                    None \<Rightarrow> s2
                  | Some error \<Rightarrow>
                      toastError (handleKVError w error (js ''add AI message'') None) s2))))"

text \<open>Lines 140 to 194, the body of the second \<open>try\<close>: the value thrown, if any, and the state.\<close>

definition generateReply ::
  "world \<Rightarrow> ChatInterfaceProps \<Rightarrow> Message list option \<Rightarrow> jsstring \<Rightarrow> state
     \<Rightarrow> thrown option \<times> state" where
  "generateReply w p renderedMessages currentMessage s =
     (case gatherContext w p renderedMessages currentMessage of
        (Inl error, calls) \<Rightarrow> (Some error, s\<lparr>aiCalls := aiCalls s @ calls\<rparr>)
      | (Inr request, calls) \<Rightarrow>
          (let s1 = s\<lparr>aiCalls := aiCalls s @ calls @ [GenerateResponse currentMessage request]\<rparr>
          in (case generateResponse w currentMessage request of
               Inl error \<Rightarrow> (Some error, s1)
             | Inr aiResponseContent \<Rightarrow>
                 (None, deliverReply w p (aiMessage w aiResponseContent (ctx_mood request)) s1))))"

text \<open>Lines 195 to 221, the \<open>catch\<close> of the second \<open>try\<close>.\<close>

definition fallbackReply :: "world \<Rightarrow> jsstring \<Rightarrow> thrown \<Rightarrow> state \<Rightarrow> state" where
  "fallbackReply w currentMessage error s =
     (let s1 = consoleError (ConsoleErrorOf (js ''AI response error:'') error) s;
          s2 = (case setMessages w AddFallbackMessage
                       (appendTo (fallbackMessage w currentMessage)) s1 of
                  (None, s') \<Rightarrow> s'
                | (Some kvError, s') \<Rightarrow>
                    toastError (handleKVError w kvError (js ''add fallback message'') None) s')
      in toastError (js ''Failed to get AI response. Using fallback response.'') s2)"

definition sendMessage :: "world \<Rightarrow> ChatInterfaceProps \<Rightarrow> state \<Rightarrow> state" where
  "sendMessage w p s =
     (if trim (message s) = [] \<or> isSending s then s
      else
        let s1 = s\<lparr>isSending := True\<rparr> in
        case setMessages w AddUserMessage (appendTo (userMessage w (trim (message s)))) s1 of
          (Some error, s2) \<Rightarrow>
            (toastError (handleKVError w error (js ''add user message'') (Some (kvKey w p)))
               (consoleError (ConsoleErrorOf (js ''KV Storage Error Details:'') error) s2))
            \<lparr>isSending := False\<rparr>
        | (None, s2) \<Rightarrow>
            let currentMessage = trim (message s);
                s3 = s2\<lparr>message := [], isTyping := True\<rparr>;
                s4 = (case generateReply w p (messages s) currentMessage s3 of
                        (None, s') \<Rightarrow> s'
                      | (Some error, s') \<Rightarrow> fallbackReply w currentMessage error s')
            in s4\<lparr>isTyping := False, isSending := False\<rparr>)"

text \<open>Lines 87 to 93: the initialisation of the AI service when the component mounts.\<close>

definition initializeAI :: "world \<Rightarrow> state \<Rightarrow> state" where
  "initializeAI w s =
     (let s1 = s\<lparr>aiCalls := aiCalls s @ [InitializeConfig]\<rparr> in
      case initializeConfig w of
        None \<Rightarrow> s1
      | Some error \<Rightarrow>
          consoleError (ConsoleErrorOf (js ''Failed to initialize AI service:'') error) s1)"

section \<open>Image upload (ChatInterface)\<close>

text \<open>The fields \<open>name\<close>, \<open>size\<close> and \<open>type\<close> of a \<open>File\<close>.\<close>

record File =
  file_name :: jsstring
  file_size :: nat
  file_type :: jsstring

definition imageMessage :: "world \<Rightarrow> File \<Rightarrow> Message" where
  "imageMessage w file =
     \<lparr>id' = msgId (dateNow w AddImageMessage),
      content = [0xD83D, 0xDCF7] @ js '' Image uploaded: '' @ file_name file,
      sender = User,
      timestamp = toISOString w AddImageMessage,
      type' = Image,
      metadata = None\<rparr>"

definition billResponse :: "world \<Rightarrow> Message" where
  "billResponse w =
     \<lparr>id' = msgId (dateNow w AddBillResponse + 1),
      content =
        js ''I can see this is a BESCOM electricity bill. Here'' @
        [0x0027] @
        js ''s what I found:\<newline>\<newline>'' @
        [0xD83D, 0xDCA1] @
        js '' **Bill Amount**: '' @
        [0x20B9] @
        js ''734\<newline>'' @
        [0xD83D, 0xDCC5] @
        js '' **Due Date**: 22 Sep 2024\<newline>'' @
        [0xD83C, 0xDFE0] @
        js '' **Service Connection**: 1234567890\<newline>\<newline>Would '' @
        js ''you like me to create a UPI payment link or set a reminder?'',
      sender = AI,
      timestamp = toISOString w AddBillResponse,
      type' = Text,
      metadata = Some \<lparr>confidence = Some (95 / 100),
                       needsPermission = None,
                       actionItems = Some [js ''Create UPI Payment Link'', js ''Set Reminder'',
                                           js ''View Bill Details''],
                       disclaimer = Some (js ''Bill processing is automated. Please verify details before payment.'')\<rparr>\<rparr>"

definition errorResponse :: "world \<Rightarrow> jsstring \<Rightarrow> Message" where
  "errorResponse w errorMessage =
     \<lparr>id' = msgId (dateNow w AddErrorMessage + 1),
      content = [0x274C] @ js '' Error processing image: '' @ errorMessage,
      sender = AI,
      timestamp = toISOString w AddErrorMessage,
      type' = Text,
      metadata = Some \<lparr>confidence = Some 0,
                       needsPermission = None,
                       actionItems = None,
                       disclaimer = Some (js ''Error occurred during file processing.'')\<rparr>\<rparr>"

definition sizeTooLarge :: jsstring where
  "sizeTooLarge = js ''File size too large. Please select an image under 10MB.''"

definition invalidFileType :: jsstring where
  "invalidFileType = js ''Invalid file type. Please select an image file.''"

text \<open>Lines 312 to 339, the \<open>catch\<close> of \<open>processImageUpload\<close>.\<close>

definition uploadFailed :: "world \<Rightarrow> thrown \<Rightarrow> state \<Rightarrow> state" where
  "uploadFailed w error s =
     (let s1 = s\<lparr>isTyping := False\<rparr>;
          errorMessage = (case error of Error text \<Rightarrow> text
                          | OtherValue \<Rightarrow> js ''Unknown error occurred'');
          s2 = toastError errorMessage s1
      in case setMessages w AddErrorMessage (appendTo (errorResponse w errorMessage)) s2 of
           (None, s') \<Rightarrow> s'
         | (Some kvError, s') \<Rightarrow>
             consoleError (ConsoleError (handleKVError w kvError (js ''add error message'') None)) s')"

text \<open>
  \<open>processImageUpload\<close>. On success it sets a timer of 2000 ms; what the timer does when
  it fires is \<open>billTimerFires\<close>.
\<close>

definition processImageUpload :: "world \<Rightarrow> File \<Rightarrow> state \<Rightarrow> state" where
  "processImageUpload w file s =
     (case setMessages w AddImageMessage (appendTo (imageMessage w file)) s of
        (Some error, s1) \<Rightarrow>
          toastError (handleKVError w error (js ''add image message'') None) s1
      | (None, s1) \<Rightarrow>
          let s2 = s1\<lparr>isTyping := True\<rparr> in
          if file_size file > 10 * 1024 * 1024 then uploadFailed w (Error sizeTooLarge) s2
          else if \<not> startsWith (file_type file) (js ''image/'')
          then uploadFailed w (Error invalidFileType) s2
          else s2\<lparr>timers := timers s2 @ [2000]\<rparr>)"

definition billTimerFires :: "world \<Rightarrow> state \<Rightarrow> state" where
  "billTimerFires w s =
     (case timers s of
        [] \<Rightarrow> s
      | delay # pending \<Rightarrow>
          let s1 = s\<lparr>timers := pending\<rparr>;
              s2 = (case setMessages w AddBillResponse (appendTo (billResponse w)) s1 of
                      (None, s') \<Rightarrow> s'
                    | (Some error, s') \<Rightarrow>
                        toastError (handleKVError w error (js ''add bill response'') None) s')
          in s2\<lparr>isTyping := False\<rparr>)"

text \<open>\<open>processFileUpload\<close>: \<open>event.target.files?.[0]\<close> is the head of the list, if any.\<close>

definition processFileUpload :: "world \<Rightarrow> File list \<Rightarrow> state \<Rightarrow> state" where
  "processFileUpload w files s =
     (case files of
        [] \<Rightarrow> s
      | file # others \<Rightarrow>
          if startsWith (file_type file) (js ''image/'') then processImageUpload w file s
          else s)"

section \<open>Sending a message (MessagingApp)\<close>

text \<open>
  The second screen keeps its state in the application store. \<open>settings.aiConfig\<close> and
  \<open>settings.privacy.moodDetection\<close> are the fields \<open>aiConfig\<close> and
  \<open>privacy_moodDetection\<close>; the fields \<open>id\<close> and \<open>type\<close> of a chat are \<open>chat_id\<close> and
  \<open>chat_type\<close>.
\<close>

record AIConfig =
  enabled :: bool
  apiKey :: "jsstring option"

record Settings =
  aiConfig :: AIConfig
  privacy_moodDetection :: bool

record Chat =
  chat_id :: jsstring
  chat_type :: jsstring

text \<open>The argument of \<open>addMessage\<close>: \<open>content\<close>, \<open>sender\<close>, \<open>chatId\<close> and \<open>metadata\<close>.\<close>

record NewMessage =
  new_content :: jsstring
  new_sender :: sender
  new_chatId :: jsstring
  new_metadata :: "Metadata option"

text \<open>The response of the AI service of this screen: \<open>content\<close> and \<open>metadata\<close>.\<close>

record AIResponse =
  response_content :: jsstring
  response_metadata :: "Metadata option"

datatype role = RoleUser | RoleAssistant

text \<open>
  A generation request of this screen: the configuration given to \<open>getAIService\<close>, the
  text, the conversation history, and the options \<open>mood\<close> and \<open>isGroup\<close>.
\<close>

type_synonym app_request =
  "AIConfig \<times> jsstring \<times> (role \<times> jsstring) list \<times> jsstring option \<times> bool"

record app_state =
  messageInput :: jsstring
  isGenerating :: bool
  currentChatId :: "jsstring option"
  chats :: "Chat list"
  app_messages :: "jsstring \<rightharpoonup> NewMessage list"
  settings :: Settings
  app_calls :: "app_request list"
  app_toasts :: "toast list"
  app_console :: "console_line list"

text \<open>A string or \<open>null\<close> as a condition: true for a string that is not empty.\<close>

definition truthy :: "jsstring option \<Rightarrow> bool" where
  "truthy v \<longleftrightarrow> (case v of None \<Rightarrow> False | Some text \<Rightarrow> text \<noteq> [])"

text \<open>
  Modelled from the spec: \<open>addMessage\<close> of the application store (\<open>store/appStore\<close> is
  not among the sources). The store appends the message to the sequence of its chat; a
  chat without messages counts as the empty sequence.
\<close>

definition addMessage :: "NewMessage \<Rightarrow> app_state \<Rightarrow> app_state" where
  "addMessage m s =
     s\<lparr>app_messages :=
         (app_messages s)(new_chatId m \<mapsto> orEmpty (app_messages s (new_chatId m)) @ [m])\<rparr>"

text \<open>\<open>xs.slice(-n)\<close>: the last \<open>n\<close> elements.\<close>

definition sliceLast :: "nat \<Rightarrow> 'a list \<Rightarrow> 'a list" where
  "sliceLast n xs = drop (length xs - n) xs"

text \<open>
  The request \<open>handleSendMessage\<close> makes for the text \<open>userText\<close> (the constant
  \<open>userMessage\<close> of the source) in the chat \<open>chat\<close>: \<open>currentMessages\<close> and
  \<open>currentChat\<close> are the values the component rendered with.
\<close>

definition appRequest :: "app_state \<Rightarrow> jsstring \<Rightarrow> jsstring \<Rightarrow> app_request" where
  "appRequest s chat userText =
     (let currentMessages = orEmpty (app_messages s chat);
          conversationHistory =
            map (\<lambda>msg. (if new_sender msg = User then RoleUser else RoleAssistant,
                         new_content msg))
                (sliceLast 10 currentMessages)
      in (aiConfig (settings s), userText, conversationHistory,
          (if privacy_moodDetection (settings s) then Some (js ''auto'') else None),
          (case find (\<lambda>c. chat_id c = chat) (chats s) of
             None \<Rightarrow> False
           | Some currentChat \<Rightarrow> chat_type currentChat = js ''group'')))"

text \<open>
  \<open>handleSendMessage\<close>. The argument \<open>generate\<close> is \<open>getAIService(config).generateResponse\<close>
  with its outcome (\<open>Inl\<close>: it throws).
\<close>

definition handleSendMessage ::
  "(app_request \<Rightarrow> thrown + AIResponse) \<Rightarrow> app_state \<Rightarrow> app_state" where
  "handleSendMessage generate s =
     (case currentChatId s of
        None \<Rightarrow> s
      | Some chat \<Rightarrow>
          if trim (messageInput s) = [] \<or> chat = [] then s
          else
            let userText = trim (messageInput s);
                s1 = s\<lparr>messageInput := []\<rparr>;
                s2 = addMessage \<lparr>new_content = userText, new_sender = User,
                                 new_chatId = chat, new_metadata = None\<rparr> s1
            in if enabled (aiConfig (settings s)) \<and> truthy (apiKey (aiConfig (settings s)))
               then
                 let s3 = s2\<lparr>isGenerating := True\<rparr>;
                     request = appRequest s chat userText;
                     s4 = s3\<lparr>app_calls := app_calls s3 @ [request]\<rparr>;
                     s5 = (case generate request of
                             Inr response \<Rightarrow>
                               addMessage \<lparr>new_content = response_content response,
                                           new_sender = AI, new_chatId = chat,
                                           new_metadata = response_metadata response\<rparr> s4
                           | Inl error \<Rightarrow>
                               s4\<lparr>app_console :=
                                     app_console s4 @ [ConsoleErrorOf (js ''AI Error:'') error],
                                   app_toasts :=
                                     app_toasts s4
                                     @ [ToastError (js ''Failed to generate AI response'')]\<rparr>)
                 in s5\<lparr>isGenerating := False\<rparr>
               else s2)"

section \<open>Example surroundings\<close>

text \<open>
  A world in which every collaborator answers and the store accepts every write, the
  properties of a chat whose user has given both consents, of one who has given none, and
  the state of an idle chat screen with a pending input.
\<close>

definition calmWorld :: world where
  "calmWorld =
     \<lparr>dateNow = (\<lambda>operation. 1726000000000),
      toISOString = (\<lambda>operation. js ''2024-09-10T20:26:40.000Z''),
      setMessagesThrows = (\<lambda>operation. None),
      handleKVError = (\<lambda>error operation key. js ''Failed to '' @ operation),
      sanitizeKVKey = (\<lambda>key. key),
      initializeConfig = None,
      detectMood =
        (\<lambda>text. Inr \<lparr>mood = js ''stressed'', mood_confidence = 8 / 10, mood_suggestions = []\<rparr>),
      getHyperlocalContext =
        (\<lambda>city text. Inr \<lparr>area = js ''Koramangala'', area_suggestions = []\<rparr>),
      generateResponse = (\<lambda>text request. Inr (js ''Take the Outer Ring Road.'')),
      locationRejectsFirst = False\<rparr>"

definition quotaExceeded :: thrown where
  "quotaExceeded = Error (js ''QuotaExceededError'')"

definition networkDown :: thrown where
  "networkDown = Error (js ''Failed to fetch'')"

definition consentingProps :: ChatInterfaceProps where
  "consentingProps =
     \<lparr>chatId = js ''chat-1'',
      userConsents = [js ''moodDetection'' \<mapsto> True, js ''locationServices'' \<mapsto> True],
      onChatUpdate = None\<rparr>"

definition decliningProps :: ChatInterfaceProps where
  "decliningProps =
     \<lparr>chatId = js ''chat-1'',
      userConsents = [js ''moodDetection'' \<mapsto> False],
      onChatUpdate = None\<rparr>"

definition idleScreen :: "jsstring \<Rightarrow> state" where
  "idleScreen text =
     \<lparr>message = text, isTyping = False, isSending = False, messages = None,
      storeCalls = [], toasts = [], console = [], aiCalls = [], chatUpdates = [],
      timers = []\<rparr>"

definition largeImage :: File where
  "largeImage =
     \<lparr>file_name = js ''bill.png'', file_size = 10 * 1024 * 1024 + 1,
      file_type = js ''image/png''\<rparr>"

definition idleApp :: "bool \<Rightarrow> jsstring option \<Rightarrow> jsstring \<Rightarrow> app_state" where
  "idleApp on key text =
     \<lparr>messageInput = text, isGenerating = False, currentChatId = Some (js ''chat-1''),
      chats = [\<lparr>chat_id = js ''chat-1'', chat_type = js ''direct''\<rparr>],
      app_messages = Map.empty,
      settings = \<lparr>aiConfig = \<lparr>enabled = on, apiKey = key\<rparr>, privacy_moodDetection = False\<rparr>,
      app_calls = [], app_toasts = [], app_console = []\<rparr>"

text \<open>The same world with a store that rejects the write of one operation.\<close>

definition storeRejects :: "operation \<Rightarrow> world \<Rightarrow> world" where
  "storeRejects operation w =
     w\<lparr>setMessagesThrows :=
         (\<lambda>other. if other = operation then Some quotaExceeded else setMessagesThrows w other)\<rparr>"

text \<open>The same world with a generation call that throws.\<close>

definition offline :: "world \<Rightarrow> world" where
  "offline w = w\<lparr>generateResponse := (\<lambda>text request. Inl networkDown)\<rparr>"

definition appOffline :: "app_request \<Rightarrow> thrown + AIResponse" where
  "appOffline request = Inl networkDown"

text \<open>The request the chat screen makes for \<open>hello\<close> in a new chat with both consents.\<close>

definition helloRequest :: GenerationContext where
  "helloRequest =
     \<lparr>ctx_mood = \<lparr>mood = js ''stressed'', mood_confidence = 8 / 10, mood_suggestions = []\<rparr>,
      ctx_location = \<lparr>area = js ''Koramangala'', area_suggestions = []\<rparr>,
      messageHistory = [],
      isGroupMention = False,
      specificRequest = js ''hello''\<rparr>"

text \<open>Enrichment collaborators that reject.\<close>

definition moodFails :: "jsstring \<Rightarrow> thrown + MoodAnalysis" where
  "moodFails text = Inl networkDown"

definition locationFails :: "jsstring \<Rightarrow> jsstring \<Rightarrow> thrown + LocationContext" where
  "locationFails city text = Inl networkDown"

text \<open>The request for \<open>hello\<close> of a user who has given no consent.\<close>

definition plainRequest :: GenerationContext where
  "plainRequest = helloRequest\<lparr>ctx_mood := defaultMood, ctx_location := defaultLocation\<rparr>"

text \<open>The same world with an initialisation of the AI service that rejects.\<close>

definition unconfigured :: "world \<Rightarrow> world" where
  "unconfigured w = w\<lparr>initializeConfig := Some networkDown\<rparr>"

text \<open>
  A world in which both enrichment collaborators reject, the hyperlocal one first and
  with an error of its own.
\<close>

definition geoTimeout :: thrown where
  "geoTimeout = Error (js ''Geolocation timeout'')"

definition hyperlocalDown :: "jsstring \<Rightarrow> jsstring \<Rightarrow> thrown + LocationContext" where
  "hyperlocalDown city text = Inl geoTimeout"

definition stormWorld :: world where
  "stormWorld =
     calmWorld\<lparr>detectMood := moodFails, getHyperlocalContext := hyperlocalDown,
               locationRejectsFirst := True\<rparr>"

text \<open>A selected file that is not an image.\<close>

definition textFile :: File where
  "textFile = \<lparr>file_name = js ''notes.txt'', file_size = 12, file_type = js ''text/plain''\<rparr>"

section \<open>Observations on one invocation\<close>

text \<open>The calls to the AI service that one send adds to the trace.\<close>

definition callsOfSend :: "world \<Rightarrow> ChatInterfaceProps \<Rightarrow> state \<Rightarrow> ai_call list" where
  "callsOfSend w p s = drop (length (aiCalls s)) (aiCalls (sendMessage w p s))"

text \<open>
  \<open>keepsMessages s s'\<close>: the messages stored in \<open>s\<close> are the first messages stored in
  \<open>s'\<close>, unchanged and in the same order.
\<close>

definition keepsMessages :: "state \<Rightarrow> state \<Rightarrow> bool" where
  "keepsMessages s s' \<longleftrightarrow>
     take (length (orEmpty (messages s))) (orEmpty (messages s')) = orEmpty (messages s)"

text \<open>
  The toasts and the store writes that lie between a state and a later state, and the
  toast by which a rejected write of \<open>operation\<close> is reported: only the write of the user
  message passes the key to \<open>handleKVError\<close>.
\<close>

definition newToasts :: "state \<Rightarrow> state \<Rightarrow> toast list" where
  "newToasts s s' = drop (length (toasts s)) (toasts s')"

definition newStoreCalls :: "state \<Rightarrow> state \<Rightarrow> operation list" where
  "newStoreCalls s s' = drop (length (storeCalls s)) (storeCalls s')"

definition rejectionToast ::
  "world \<Rightarrow> ChatInterfaceProps \<Rightarrow> operation \<Rightarrow> thrown \<Rightarrow> toast" where
  "rejectionToast w p operation kvError =
     ToastError (handleKVError w kvError (operationLabel operation)
       (if operation = AddUserMessage then Some (kvKey w p) else None))"

text \<open>
  \<open>appendMessages\<close> writes a sequence of messages to the store, one write each, with the
  updater of the source.
\<close>

definition appendMessages :: "world \<Rightarrow> operation \<Rightarrow> Message list \<Rightarrow> state \<Rightarrow> state" where
  "appendMessages w operation ms s =
     fold (\<lambda>m s'. snd (setMessages w operation (appendTo m) s')) ms s"

section \<open>Properties of the strings\<close>

lemma startsWith_iff: "startsWith s k \<longleftrightarrow> take (length k) s = k \<and> length k \<le> length s"
  by (induction s k rule: startsWith.induct) auto

lemma includes_js_iff: "includes_js s k \<longleftrightarrow> (\<exists>p t. s = p @ k @ t)"
proof (induction s)
  case Nil
  then show ?case by auto
next
  case (Cons c cs)
  have "startsWith (c # cs) k \<longleftrightarrow> (\<exists>t. c # cs = k @ t)"
    unfolding startsWith_iff
    by (metis append_eq_conv_conj append_take_drop_id length_append le_add1)
  moreover have "(\<exists>p t. c # cs = p @ k @ t) \<longleftrightarrow>
      (\<exists>t. c # cs = k @ t) \<or> (\<exists>p t. cs = p @ k @ t)"
  proof
    assume "\<exists>p t. c # cs = p @ k @ t"
    then obtain p t where pt: "c # cs = p @ k @ t" by blast
    show "(\<exists>t. c # cs = k @ t) \<or> (\<exists>p t. cs = p @ k @ t)"
    proof (cases p)
      case Nil
      with pt show ?thesis by auto
    next
      case (Cons a p')
      with pt have "cs = p' @ k @ t" by simp
      then show ?thesis by blast
    qed
  next
    assume "(\<exists>t. c # cs = k @ t) \<or> (\<exists>p t. cs = p @ k @ t)"
    then show "\<exists>p t. c # cs = p @ k @ t"
    proof
      assume "\<exists>t. c # cs = k @ t"
      then obtain t where "c # cs = [] @ k @ t" by auto
      then show ?thesis by blast
    next
      assume "\<exists>p t. cs = p @ k @ t"
      then obtain p t where "c # cs = (c # p) @ k @ t" by auto
      then show ?thesis by blast
    qed
  qed
  ultimately show ?case using Cons.IH by simp
qed

lemma includes_js_toLowerCase:
  assumes "includes_js s k" and "toLowerCase k = k"
  shows "includes_js (toLowerCase s) k"
proof -
  from assms(1) obtain p t where "s = p @ k @ t"
    unfolding includes_js_iff by blast
  then have "toLowerCase s = toLowerCase p @ toLowerCase k @ toLowerCase t"
    by (simp add: toLowerCase_def)
  with assms(2) show ?thesis
    unfolding includes_js_iff by metis
qed

lemma route_keywords_lowercase:
  "k \<in> set (spec_keywords Route) \<Longrightarrow> toLowerCase k = k"
  by (auto simp add: js_def toLowerCase_def)

lemma six_suggestions_distinct:
  "distinct [routeSuggestion, billSuggestion, groupSuggestion, weatherSuggestion,
             translateSuggestion, defaultSuggestion]"
  by (simp add: routeSuggestion_def billSuggestion_def groupSuggestion_def
      weatherSuggestion_def translateSuggestion_def defaultSuggestion_def js_def)

section \<open>The fallback suggestion selector: first matching category\<close>

text \<open>
  C2. \<open>getFallbackSuggestion\<close> is a function of its argument alone, defined on every
  string. Its value is the suggestion of the first category, in the order route, billing,
  group summary, weather, translation, whose keyword occurs in the lowercased input, and
  the generic suggestion when none occurs; the six suggestions are six different texts and
  the value is one of them; an input that contains a route keyword, as written or after
  lowercasing, gets the route suggestion, whatever else it contains.
\<close>

theorem getFallbackSuggestion_first_match:
  "getFallbackSuggestion txt = spec_suggestion (spec_category (toLowerCase txt))
   \<and> getFallbackSuggestion txt \<in>
       {routeSuggestion, billSuggestion, groupSuggestion, weatherSuggestion,
        translateSuggestion, defaultSuggestion}
   \<and> distinct [routeSuggestion, billSuggestion, groupSuggestion, weatherSuggestion,
                translateSuggestion, defaultSuggestion]
   \<and> (\<forall>k \<in> set (spec_keywords Route).
         includes_js (toLowerCase txt) k \<or> includes_js txt k \<longrightarrow>
         getFallbackSuggestion txt = routeSuggestion)"
proof -
  have eq: "getFallbackSuggestion txt = spec_suggestion (spec_category (toLowerCase txt))"
    by (simp add: getFallbackSuggestion_def spec_category_def spec_priority_def
        spec_matches_def Let_def)
  have mem: "getFallbackSuggestion txt \<in>
       {routeSuggestion, billSuggestion, groupSuggestion, weatherSuggestion,
        translateSuggestion, defaultSuggestion}"
    by (simp add: getFallbackSuggestion_def Let_def)
  have lowered: "\<forall>k \<in> set (spec_keywords Route).
         includes_js (toLowerCase txt) k \<longrightarrow>
         getFallbackSuggestion txt = routeSuggestion"
    by (auto simp add: getFallbackSuggestion_def Let_def)
  have route: "\<forall>k \<in> set (spec_keywords Route).
         includes_js (toLowerCase txt) k \<or> includes_js txt k \<longrightarrow>
         getFallbackSuggestion txt = routeSuggestion"
    using lowered includes_js_toLowerCase route_keywords_lowercase by blast
  from eq mem six_suggestions_distinct route show ?thesis by blast
qed

theorem getFallbackSuggestion_first_match_witness:
  "js ''route'' \<in> set (spec_keywords Route)
   \<and> includes_js (toLowerCase (js ''Is the Route clear in this weather?'')) (js ''route'')
   \<and> includes_js (toLowerCase (js ''Is the Route clear in this weather?'')) (js ''weather'')
   \<and> getFallbackSuggestion (js ''Is the Route clear in this weather?'') = routeSuggestion"
proof -
  have k: "js ''route'' \<in> set (spec_keywords Route)" by simp
  have r: "includes_js (toLowerCase (js ''Is the Route clear in this weather?'')) (js ''route'')"
    by (simp add: js_def toLowerCase_def)
  have w: "includes_js (toLowerCase (js ''Is the Route clear in this weather?'')) (js ''weather'')"
    by (simp add: js_def toLowerCase_def)
  from getFallbackSuggestion_first_match [of "js ''Is the Route clear in this weather?''"] k r
  have "getFallbackSuggestion (js ''Is the Route clear in this weather?'') = routeSuggestion"
    by blast
  with k r w show ?thesis by blast
qed

section \<open>Properties of the store and of the helpers\<close>

lemma orEmpty_simps [simp]: "orEmpty None = []" "orEmpty (Some xs) = xs"
  by (simp_all add: orEmpty_def)

lemma setMessages_accepts:
  "setMessagesThrows w operation = None \<Longrightarrow>
   setMessages w operation update s =
     (None, s\<lparr>storeCalls := storeCalls s @ [operation], messages := Some (update (messages s))\<rparr>)"
  by (simp add: setMessages_def)

lemma setMessages_rejects:
  "setMessagesThrows w operation = Some error \<Longrightarrow>
   setMessages w operation update s = (Some error, s\<lparr>storeCalls := storeCalls s @ [operation]\<rparr>)"
  by (simp add: setMessages_def)

lemma trim_blank: "trim (js ''  '') = []"
  by (simp add: trim_def js_def isWhiteSpace_def)

lemma trim_hello: "trim (js ''hello'') = js ''hello''"
  by (simp add: trim_def js_def isWhiteSpace_def)

lemma gatherContext_request:
  assumes "gatherContext w p rendered currentMessage = (Inr request, calls)"
  shows "initializeConfig w = None
    \<and> ctx_mood request =
        (if consent p (js ''moodDetection'') then projr (detectMood w currentMessage)
         else defaultMood)
    \<and> ctx_location request =
        (if consent p (js ''locationServices'')
         then projr (getHyperlocalContext w (js ''Bangalore'') currentMessage)
         else defaultLocation)
    \<and> messageHistory request = map toAIServiceMessage (orEmpty rendered)
    \<and> isGroupMention request = includes_js (toLowerCase currentMessage) (js ''@sahaay'')
    \<and> specificRequest request = currentMessage"
  using assms
  by (auto simp add: gatherContext_def Let_def split: option.splits sum.splits if_splits)

lemma deliverReply_messages:
  "setMessagesThrows w AddAIMessage = None \<Longrightarrow>
   messages (deliverReply w p reply s) = Some (orEmpty (messages s) @ [reply])
   \<and> storeCalls (deliverReply w p reply s) = storeCalls s @ [AddAIMessage]"
  by (simp add: deliverReply_def setMessages_accepts appendTo_def toastError_def Let_def
      split: option.splits)

lemma fallbackReply_accepts:
  "setMessagesThrows w AddFallbackMessage = None \<Longrightarrow>
   fallbackReply w currentMessage error s =
     s\<lparr>console := console s @ [ConsoleErrorOf (js ''AI response error:'') error],
       storeCalls := storeCalls s @ [AddFallbackMessage],
       messages := Some (orEmpty (messages s) @ [fallbackMessage w currentMessage]),
       toasts := toasts s @ [ToastError (js ''Failed to get AI response. Using fallback response.'')]\<rparr>"
  by (simp add: fallbackReply_def consoleError_def toastError_def setMessages_accepts
      appendTo_def Let_def)

lemma fallbackReply_rejects:
  "setMessagesThrows w AddFallbackMessage = Some kvError \<Longrightarrow>
   fallbackReply w currentMessage error s =
     s\<lparr>console := console s @ [ConsoleErrorOf (js ''AI response error:'') error],
       storeCalls := storeCalls s @ [AddFallbackMessage],
       toasts := toasts s
         @ [ToastError (handleKVError w kvError (js ''add fallback message'') None),
            ToastError (js ''Failed to get AI response. Using fallback response.'')]\<rparr>"
  by (simp add: fallbackReply_def consoleError_def toastError_def setMessages_rejects Let_def)

lemma sendMessage_generation_throws:
  assumes "trim (message s) \<noteq> []" and "\<not> isSending s"
    and "setMessagesThrows w AddUserMessage = None"
    and "gatherContext w p (messages s) (trim (message s)) = (Inr request, calls)"
    and "generateResponse w (trim (message s)) request = Inl error"
  shows "sendMessage w p s =
      (fallbackReply w (trim (message s)) error
         (s\<lparr>isSending := True,
             storeCalls := storeCalls s @ [AddUserMessage],
             messages := Some (orEmpty (messages s) @ [userMessage w (trim (message s))]),
             message := [], isTyping := True,
             aiCalls := aiCalls s @ calls @ [GenerateResponse (trim (message s)) request]\<rparr>))
      \<lparr>isTyping := False, isSending := False\<rparr>"
  using assms
  by (simp add: sendMessage_def setMessages_accepts generateReply_def appendTo_def Let_def)

lemma handleSendMessage_generation_throws:
  assumes "currentChatId a = Some chat" and "chat \<noteq> []" and "trim (messageInput a) \<noteq> []"
    and "enabled (aiConfig (settings a))" and "truthy (apiKey (aiConfig (settings a)))"
    and "generate (appRequest a chat (trim (messageInput a))) = Inl error"
  shows "handleSendMessage generate a =
     a\<lparr>messageInput := [],
       app_messages := (app_messages a)(chat \<mapsto> orEmpty (app_messages a chat)
          @ [\<lparr>new_content = trim (messageInput a), new_sender = User, new_chatId = chat,
               new_metadata = None\<rparr>]),
       app_calls := app_calls a @ [appRequest a chat (trim (messageInput a))],
       app_console := app_console a @ [ConsoleErrorOf (js ''AI Error:'') error],
       app_toasts := app_toasts a @ [ToastError (js ''Failed to generate AI response'')],
       isGenerating := False\<rparr>"
  using assms
  by (simp add: handleSendMessage_def addMessage_def Let_def)

section \<open>The guard of sendMessage\<close>

text \<open>
  C3. A send whose input trims to the empty string, or that is issued while
  \<open>isSending\<close> is true, changes nothing: the state after \<open>sendMessage\<close> is the state
  before it, so the message list is the same, no write to the store is attempted and no
  call to the AI service is made.
\<close>

theorem sendMessage_guard_noop:
  "trim (message s) = [] \<or> isSending s \<Longrightarrow>
   sendMessage w p s = s
   \<and> messages (sendMessage w p s) = messages s
   \<and> storeCalls (sendMessage w p s) = storeCalls s
   \<and> aiCalls (sendMessage w p s) = aiCalls s"
proof -
  assume guard: "trim (message s) = [] \<or> isSending s"
  then have unchanged: "sendMessage w p s = s"
    by (simp add: sendMessage_def)
  show ?thesis
    by (simp add: unchanged)
qed

text \<open>
  Both ways into the guard: an input of two spaces on an idle screen, and the input
  \<open>hello\<close> while a send is in flight.
\<close>

theorem sendMessage_guard_noop_witness:
  "(trim (message (idleScreen (js ''  ''))) = [] \<or> isSending (idleScreen (js ''  '')))
   \<and> sendMessage calmWorld consentingProps (idleScreen (js ''  '')) = idleScreen (js ''  '')
   \<and> (trim (message ((idleScreen (js ''hello''))\<lparr>isSending := True\<rparr>)) = []
        \<or> isSending ((idleScreen (js ''hello''))\<lparr>isSending := True\<rparr>))
   \<and> sendMessage calmWorld consentingProps ((idleScreen (js ''hello''))\<lparr>isSending := True\<rparr>)
       = (idleScreen (js ''hello''))\<lparr>isSending := True\<rparr>"
proof -
  have a: "trim (message (idleScreen (js ''  ''))) = [] \<or> isSending (idleScreen (js ''  ''))"
    by (simp add: idleScreen_def trim_blank)
  have b: "trim (message ((idleScreen (js ''hello''))\<lparr>isSending := True\<rparr>)) = []
        \<or> isSending ((idleScreen (js ''hello''))\<lparr>isSending := True\<rparr>)"
    by simp
  show ?thesis
    using a b sendMessage_guard_noop [OF a, of calmWorld consentingProps]
      sendMessage_guard_noop [OF b, of calmWorld consentingProps]
    by simp
qed

section \<open>A failing write of the user message\<close>

text \<open>
  C4. When the store rejects the write of the echoed user message, the send aborts: the
  message of the storage error is shown in a toast and the error is logged, the message
  list is as before, no call to the AI service is made, the write of the user message is
  the only write attempted, and \<open>isSending\<close> is false again. The pending input and the
  typing indicator are left as they were.
\<close>

theorem sendMessage_user_append_fails:
  assumes "trim (message s) \<noteq> []" and "\<not> isSending s"
    and "setMessagesThrows w AddUserMessage = Some error"
  shows "messages (sendMessage w p s) = messages s
   \<and> aiCalls (sendMessage w p s) = aiCalls s
   \<and> storeCalls (sendMessage w p s) = storeCalls s @ [AddUserMessage]
   \<and> toasts (sendMessage w p s) =
       toasts s @ [ToastError (handleKVError w error (js ''add user message'') (Some (kvKey w p)))]
   \<and> console (sendMessage w p s) =
       console s @ [ConsoleErrorOf (js ''KV Storage Error Details:'') error]
   \<and> isSending (sendMessage w p s) = False
   \<and> isTyping (sendMessage w p s) = isTyping s
   \<and> message (sendMessage w p s) = message s
   \<and> chatUpdates (sendMessage w p s) = chatUpdates s"
  using assms
  by (simp add: sendMessage_def setMessages_rejects toastError_def consoleError_def)

text \<open>
  The input \<open>hello\<close> on an idle screen, with a store that rejects the write of the user
  message.
\<close>

theorem sendMessage_user_append_fails_witness:
  "trim (message (idleScreen (js ''hello''))) \<noteq> []
   \<and> \<not> isSending (idleScreen (js ''hello''))
   \<and> setMessagesThrows (storeRejects AddUserMessage calmWorld) AddUserMessage = Some quotaExceeded
   \<and> messages (sendMessage (storeRejects AddUserMessage calmWorld) consentingProps
        (idleScreen (js ''hello''))) = None
   \<and> aiCalls (sendMessage (storeRejects AddUserMessage calmWorld) consentingProps
        (idleScreen (js ''hello''))) = []
   \<and> toasts (sendMessage (storeRejects AddUserMessage calmWorld) consentingProps
        (idleScreen (js ''hello''))) = [ToastError (js ''Failed to add user message'')]
   \<and> isSending (sendMessage (storeRejects AddUserMessage calmWorld) consentingProps
        (idleScreen (js ''hello''))) = False"
proof -
  have a: "trim (message (idleScreen (js ''hello''))) \<noteq> []"
    by (simp add: idleScreen_def trim_hello) (simp add: js_def)
  have b: "\<not> isSending (idleScreen (js ''hello''))"
    by (simp add: idleScreen_def)
  have c: "setMessagesThrows (storeRejects AddUserMessage calmWorld) AddUserMessage
             = Some quotaExceeded"
    by (simp add: storeRejects_def)
  have d: "handleKVError (storeRejects AddUserMessage calmWorld) quotaExceeded
             (js ''add user message'') (Some (kvKey (storeRejects AddUserMessage calmWorld) consentingProps))
           = js ''Failed to add user message''"
    by (simp add: storeRejects_def calmWorld_def js_def)
  show ?thesis
    using a b c sendMessage_user_append_fails [OF a b c, of consentingProps]
    by (simp add: d) (simp add: idleScreen_def)
qed

section \<open>A successful generation call\<close>

text \<open>
  C5, as amended. When a send passes the guard, the store accepts the write of the user
  message, the request is built without a rejection, the generation call returns a text
  and the store accepts the write of the reply, the message list grows by exactly the
  user message and one AI message of type text: its content is the returned text, its
  confidence is the confidence of the mood signal of the request, which is 0 when the
  mood detection consent is not given, and its disclaimer is the fixed notice on
  AI-generated content. (When the store rejects the write of the reply, the reply is not
  stored: the failure is shown in a toast.)
\<close>

theorem sendMessage_reply_stored:
  assumes "trim (message s) \<noteq> []" and "\<not> isSending s"
    and "setMessagesThrows w AddUserMessage = None"
    and "gatherContext w p (messages s) (trim (message s)) = (Inr request, calls)"
    and "generateResponse w (trim (message s)) request = Inr aiResponseContent"
    and "setMessagesThrows w AddAIMessage = None"
  shows "messages (sendMessage w p s) =
       Some (orEmpty (messages s)
             @ [userMessage w (trim (message s)),
                aiMessage w aiResponseContent (ctx_mood request)])
   \<and> sender (userMessage w (trim (message s))) = User
   \<and> sender (aiMessage w aiResponseContent (ctx_mood request)) = AI
   \<and> type' (aiMessage w aiResponseContent (ctx_mood request)) = Text
   \<and> content (aiMessage w aiResponseContent (ctx_mood request)) = aiResponseContent
   \<and> metadata (aiMessage w aiResponseContent (ctx_mood request)) =
       Some \<lparr>confidence = Some (mood_confidence (ctx_mood request)), needsPermission = None,
             actionItems = None, disclaimer = Some aiDisclaimer\<rparr>
   \<and> (\<not> consent p (js ''moodDetection'') \<longrightarrow> mood_confidence (ctx_mood request) = 0)
   \<and> storeCalls (sendMessage w p s) = storeCalls s @ [AddUserMessage, AddAIMessage]"
proof -
  have mood: "\<not> consent p (js ''moodDetection'') \<longrightarrow> mood_confidence (ctx_mood request) = 0"
    using gatherContext_request [OF assms(4)] by (simp add: defaultMood_def)
  have run: "sendMessage w p s =
      (deliverReply w p (aiMessage w aiResponseContent (ctx_mood request))
         (s\<lparr>isSending := True,
             storeCalls := storeCalls s @ [AddUserMessage],
             messages := Some (orEmpty (messages s) @ [userMessage w (trim (message s))]),
             message := [], isTyping := True,
             aiCalls := aiCalls s @ calls @ [GenerateResponse (trim (message s)) request]\<rparr>))
      \<lparr>isTyping := False, isSending := False\<rparr>"
    using assms
    by (simp add: sendMessage_def setMessages_accepts generateReply_def appendTo_def Let_def)
  show ?thesis
    using mood deliverReply_messages [OF assms(6)]
    by (simp add: run userMessage_def aiMessage_def)
qed

text \<open>
  The input \<open>hello\<close> in a world where every collaborator answers, for a user who has
  not given the mood detection consent: the stored reply has confidence 0.
\<close>

theorem sendMessage_reply_stored_witness:
  "trim (message (idleScreen (js ''hello''))) \<noteq> []
   \<and> \<not> isSending (idleScreen (js ''hello''))
   \<and> setMessagesThrows calmWorld AddUserMessage = None
   \<and> gatherContext calmWorld decliningProps (messages (idleScreen (js ''hello'')))
        (trim (message (idleScreen (js ''hello''))))
       = (Inr (helloRequest\<lparr>ctx_mood := defaultMood, ctx_location := defaultLocation\<rparr>),
          [InitializeConfig])
   \<and> generateResponse calmWorld (trim (message (idleScreen (js ''hello''))))
        (helloRequest\<lparr>ctx_mood := defaultMood, ctx_location := defaultLocation\<rparr>)
       = Inr (js ''Take the Outer Ring Road.'')
   \<and> setMessagesThrows calmWorld AddAIMessage = None
   \<and> \<not> consent decliningProps (js ''moodDetection'')
   \<and> messages (sendMessage calmWorld decliningProps (idleScreen (js ''hello''))) =
       Some [userMessage calmWorld (js ''hello''),
             aiMessage calmWorld (js ''Take the Outer Ring Road.'') defaultMood]
   \<and> metadata (aiMessage calmWorld (js ''Take the Outer Ring Road.'') defaultMood) =
       Some \<lparr>confidence = Some 0, needsPermission = None,
             actionItems = None, disclaimer = Some aiDisclaimer\<rparr>"
proof -
  have t: "trim (message (idleScreen (js ''hello''))) = js ''hello''"
    by (simp add: idleScreen_def trim_hello)
  have a: "trim (message (idleScreen (js ''hello''))) \<noteq> []"
    unfolding t by (simp add: js_def)
  have b: "\<not> isSending (idleScreen (js ''hello''))"
    by (simp add: idleScreen_def)
  have c: "setMessagesThrows calmWorld AddUserMessage = None"
    by (simp add: calmWorld_def)
  have n: "\<not> consent decliningProps (js ''moodDetection'')"
    by (simp add: consent_def decliningProps_def)
  have n': "\<not> consent decliningProps (js ''locationServices'')"
    by (simp add: consent_def decliningProps_def js_def)
  have g: "\<not> includes_js (toLowerCase (js ''hello'')) (js ''@sahaay'')"
    by (simp add: js_def toLowerCase_def)
  have d: "gatherContext calmWorld decliningProps (messages (idleScreen (js ''hello'')))
        (trim (message (idleScreen (js ''hello''))))
       = (Inr (helloRequest\<lparr>ctx_mood := defaultMood, ctx_location := defaultLocation\<rparr>),
          [InitializeConfig])"
    unfolding t using n n' g
    by (simp add: gatherContext_def idleScreen_def helloRequest_def) (simp add: calmWorld_def)
  have e: "generateResponse calmWorld (trim (message (idleScreen (js ''hello''))))
        (helloRequest\<lparr>ctx_mood := defaultMood, ctx_location := defaultLocation\<rparr>)
       = Inr (js ''Take the Outer Ring Road.'')"
    by (simp add: calmWorld_def)
  have f: "setMessagesThrows calmWorld AddAIMessage = None"
    by (simp add: calmWorld_def)
  show ?thesis
    using a b c d e f n sendMessage_reply_stored [OF a b c d e f]
    by (simp add: t) (simp add: idleScreen_def defaultMood_def)
qed

text \<open>
  Without the condition on the store the statement fails. With both consents given, the
  generation call is made and returns a text, but the store rejects the write of the
  reply: the message list holds the user message alone.
\<close>

theorem sendMessage_reply_lost_counterexample:
  "trim (message (idleScreen (js ''hello''))) = js ''hello''
   \<and> \<not> isSending (idleScreen (js ''hello''))
   \<and> generateResponse (storeRejects AddAIMessage calmWorld) (js ''hello'') helloRequest
       = Inr (js ''Take the Outer Ring Road.'')
   \<and> aiCalls (sendMessage (storeRejects AddAIMessage calmWorld) consentingProps
        (idleScreen (js ''hello''))) =
       [InitializeConfig, DetectMood (js ''hello''),
        GetHyperlocalContext (js ''Bangalore'') (js ''hello''),
        GenerateResponse (js ''hello'') helloRequest]
   \<and> messages (sendMessage (storeRejects AddAIMessage calmWorld) consentingProps
        (idleScreen (js ''hello''))) =
       Some [userMessage (storeRejects AddAIMessage calmWorld) (js ''hello'')]
   \<and> sender (userMessage (storeRejects AddAIMessage calmWorld) (js ''hello'')) = User"
proof -
  have t: "trim (message (idleScreen (js ''hello''))) = js ''hello''"
    by (simp add: idleScreen_def trim_hello)
  have ne: "js ''hello'' \<noteq> []" by (simp add: js_def)
  have m: "consent consentingProps (js ''moodDetection'')"
    by (simp add: consent_def consentingProps_def js_def)
  have l: "consent consentingProps (js ''locationServices'')"
    by (simp add: consent_def consentingProps_def)
  have g: "\<not> includes_js (toLowerCase (js ''hello'')) (js ''@sahaay'')"
    by (simp add: js_def toLowerCase_def)
  have ctx: "gatherContext (storeRejects AddAIMessage calmWorld) consentingProps None (js ''hello'')
      = (Inr helloRequest,
         [InitializeConfig, DetectMood (js ''hello''),
          GetHyperlocalContext (js ''Bangalore'') (js ''hello'')])"
    using m l g
    by (simp add: gatherContext_def helloRequest_def) (simp add: calmWorld_def storeRejects_def)
  have gen: "generateResponse (storeRejects AddAIMessage calmWorld) (js ''hello'') helloRequest
       = Inr (js ''Take the Outer Ring Road.'')"
    by (simp add: calmWorld_def storeRejects_def)
  have u: "setMessagesThrows (storeRejects AddAIMessage calmWorld) AddUserMessage = None"
    by (simp add: calmWorld_def storeRejects_def)
  have r: "setMessagesThrows (storeRejects AddAIMessage calmWorld) AddAIMessage = Some quotaExceeded"
    by (simp add: storeRejects_def)
  have s0: "message (idleScreen (js ''hello'')) = js ''hello''"
    "\<not> isSending (idleScreen (js ''hello''))"
    "messages (idleScreen (js ''hello'')) = None"
    "aiCalls (idleScreen (js ''hello'')) = []"
    by (simp_all add: idleScreen_def)
  show ?thesis
    using t ne
    by (simp add: sendMessage_def s0 trim_hello setMessages_accepts [OF u] setMessages_rejects [OF r]
        generateReply_def ctx gen deliverReply_def toastError_def appendTo_def userMessage_def Let_def)
qed

section \<open>A failing generation call\<close>

text \<open>
  C1, as amended. In the chat screen (\<open>sendMessage\<close>): when a send passes the guard, the
  store accepts the write of the user message, the generation call throws and the store
  accepts the write of the fallback, the message list grows by exactly the user message
  and one fallback message, with sender AI, type text, confidence 0.1, a disclaimer that
  is not empty, and as content the fixed troubleshooting text followed by the suggestion
  \<open>getFallbackSuggestion\<close> selects for the trimmed input. In the messaging application
  (\<open>handleSendMessage\<close>): when the generation call throws, the user message is the only
  message added to the chat, and the failure is shown in a toast.
\<close>

theorem fallback_on_generation_failure:
  "(trim (message s) \<noteq> [] \<and> \<not> isSending s
      \<and> setMessagesThrows w AddUserMessage = None
      \<and> gatherContext w p (messages s) (trim (message s)) = (Inr request, calls)
      \<and> generateResponse w (trim (message s)) request = Inl error
      \<and> setMessagesThrows w AddFallbackMessage = None
     \<longrightarrow> messages (sendMessage w p s) =
           Some (orEmpty (messages s)
                 @ [userMessage w (trim (message s)), fallbackMessage w (trim (message s))])
         \<and> sender (userMessage w (trim (message s))) = User
         \<and> sender (fallbackMessage w (trim (message s))) = AI
         \<and> type' (fallbackMessage w (trim (message s))) = Text
         \<and> content (fallbackMessage w (trim (message s))) =
             troubleshootingText @ getFallbackSuggestion (trim (message s))
         \<and> metadata (fallbackMessage w (trim (message s))) =
             Some \<lparr>confidence = Some (1 / 10), needsPermission = None, actionItems = None,
                   disclaimer = Some fallbackDisclaimer\<rparr>
         \<and> fallbackDisclaimer \<noteq> []
         \<and> storeCalls (sendMessage w p s) = storeCalls s @ [AddUserMessage, AddFallbackMessage])
   \<and> (currentChatId a = Some chat \<and> chat \<noteq> [] \<and> trim (messageInput a) \<noteq> []
      \<and> enabled (aiConfig (settings a)) \<and> truthy (apiKey (aiConfig (settings a)))
      \<and> generate (appRequest a chat (trim (messageInput a))) = Inl error'
     \<longrightarrow> app_messages (handleSendMessage generate a) chat =
           Some (orEmpty (app_messages a chat)
                 @ [\<lparr>new_content = trim (messageInput a), new_sender = User,
                      new_chatId = chat, new_metadata = None\<rparr>])
         \<and> app_toasts (handleSendMessage generate a) =
             app_toasts a @ [ToastError (js ''Failed to generate AI response'')])"
proof (intro conjI impI)
  assume h: "trim (message s) \<noteq> [] \<and> \<not> isSending s
      \<and> setMessagesThrows w AddUserMessage = None
      \<and> gatherContext w p (messages s) (trim (message s)) = (Inr request, calls)
      \<and> generateResponse w (trim (message s)) request = Inl error
      \<and> setMessagesThrows w AddFallbackMessage = None"
  then have run: "sendMessage w p s =
      (fallbackReply w (trim (message s)) error
         (s\<lparr>isSending := True,
             storeCalls := storeCalls s @ [AddUserMessage],
             messages := Some (orEmpty (messages s) @ [userMessage w (trim (message s))]),
             message := [], isTyping := True,
             aiCalls := aiCalls s @ calls @ [GenerateResponse (trim (message s)) request]\<rparr>))
      \<lparr>isTyping := False, isSending := False\<rparr>"
    using sendMessage_generation_throws by blast
  from h have ok: "setMessagesThrows w AddFallbackMessage = None" by blast
  show "messages (sendMessage w p s) =
           Some (orEmpty (messages s)
                 @ [userMessage w (trim (message s)), fallbackMessage w (trim (message s))])"
    by (simp add: run fallbackReply_accepts [OF ok])
  show "storeCalls (sendMessage w p s) = storeCalls s @ [AddUserMessage, AddFallbackMessage]"
    by (simp add: run fallbackReply_accepts [OF ok])
next
  show "sender (userMessage w (trim (message s))) = User" by (simp add: userMessage_def)
  show "sender (fallbackMessage w (trim (message s))) = AI" by (simp add: fallbackMessage_def)
  show "type' (fallbackMessage w (trim (message s))) = Text" by (simp add: fallbackMessage_def)
  show "content (fallbackMessage w (trim (message s))) =
             troubleshootingText @ getFallbackSuggestion (trim (message s))"
    by (simp add: fallbackMessage_def)
  show "metadata (fallbackMessage w (trim (message s))) =
             Some \<lparr>confidence = Some (1 / 10), needsPermission = None, actionItems = None,
                   disclaimer = Some fallbackDisclaimer\<rparr>"
    by (simp add: fallbackMessage_def)
  show "fallbackDisclaimer \<noteq> []" by (simp add: fallbackDisclaimer_def js_def)
next
  assume h: "currentChatId a = Some chat \<and> chat \<noteq> [] \<and> trim (messageInput a) \<noteq> []
      \<and> enabled (aiConfig (settings a)) \<and> truthy (apiKey (aiConfig (settings a)))
      \<and> generate (appRequest a chat (trim (messageInput a))) = Inl error'"
  then have run: "handleSendMessage generate a =
     a\<lparr>messageInput := [],
       app_messages := (app_messages a)(chat \<mapsto> orEmpty (app_messages a chat)
          @ [\<lparr>new_content = trim (messageInput a), new_sender = User, new_chatId = chat,
               new_metadata = None\<rparr>]),
       app_calls := app_calls a @ [appRequest a chat (trim (messageInput a))],
       app_console := app_console a @ [ConsoleErrorOf (js ''AI Error:'') error'],
       app_toasts := app_toasts a @ [ToastError (js ''Failed to generate AI response'')],
       isGenerating := False\<rparr>"
    using handleSendMessage_generation_throws by blast
  show "app_messages (handleSendMessage generate a) chat =
           Some (orEmpty (app_messages a chat)
                 @ [\<lparr>new_content = trim (messageInput a), new_sender = User,
                      new_chatId = chat, new_metadata = None\<rparr>])"
    by (simp add: run)
  show "app_toasts (handleSendMessage generate a) =
             app_toasts a @ [ToastError (js ''Failed to generate AI response'')]"
    by (simp add: run)
qed

text \<open>
  The input \<open>hello\<close> with a generation call that throws, on both screens: the chat
  screen stores the fallback with the generic suggestion, the messaging application
  stores the user message alone.
\<close>

theorem fallback_on_generation_failure_witness:
  "trim (message (idleScreen (js ''hello''))) \<noteq> []
   \<and> \<not> isSending (idleScreen (js ''hello''))
   \<and> setMessagesThrows (offline calmWorld) AddUserMessage = None
   \<and> gatherContext (offline calmWorld) consentingProps (messages (idleScreen (js ''hello'')))
        (trim (message (idleScreen (js ''hello''))))
       = (Inr helloRequest,
          [InitializeConfig, DetectMood (js ''hello''),
           GetHyperlocalContext (js ''Bangalore'') (js ''hello'')])
   \<and> generateResponse (offline calmWorld) (trim (message (idleScreen (js ''hello''))))
        helloRequest = Inl networkDown
   \<and> setMessagesThrows (offline calmWorld) AddFallbackMessage = None
   \<and> messages (sendMessage (offline calmWorld) consentingProps (idleScreen (js ''hello''))) =
       Some [userMessage (offline calmWorld) (js ''hello''),
             fallbackMessage (offline calmWorld) (js ''hello'')]
   \<and> content (fallbackMessage (offline calmWorld) (js ''hello'')) =
       troubleshootingText @ defaultSuggestion
   \<and> currentChatId (idleApp True (Some (js ''sk-1'')) (js ''hello'')) = Some (js ''chat-1'')
   \<and> js ''chat-1'' \<noteq> []
   \<and> trim (messageInput (idleApp True (Some (js ''sk-1'')) (js ''hello''))) \<noteq> []
   \<and> enabled (aiConfig (settings (idleApp True (Some (js ''sk-1'')) (js ''hello''))))
   \<and> truthy (apiKey (aiConfig (settings (idleApp True (Some (js ''sk-1'')) (js ''hello'')))))
   \<and> appOffline (appRequest (idleApp True (Some (js ''sk-1'')) (js ''hello'')) (js ''chat-1'')
        (trim (messageInput (idleApp True (Some (js ''sk-1'')) (js ''hello'')))))
       = Inl networkDown
   \<and> app_messages (handleSendMessage appOffline (idleApp True (Some (js ''sk-1'')) (js ''hello'')))
        (js ''chat-1'') =
       Some [\<lparr>new_content = js ''hello'', new_sender = User, new_chatId = js ''chat-1'',
              new_metadata = None\<rparr>]"
proof -
  have t: "trim (message (idleScreen (js ''hello''))) = js ''hello''"
    by (simp add: idleScreen_def trim_hello)
  have ne: "js ''hello'' \<noteq> []" by (simp add: js_def)
  have a: "trim (message (idleScreen (js ''hello''))) \<noteq> []"
    unfolding t by (rule ne)
  have b: "\<not> isSending (idleScreen (js ''hello''))"
    by (simp add: idleScreen_def)
  have c: "setMessagesThrows (offline calmWorld) AddUserMessage = None"
    by (simp add: calmWorld_def offline_def)
  have m: "consent consentingProps (js ''moodDetection'')"
    by (simp add: consent_def consentingProps_def js_def)
  have l: "consent consentingProps (js ''locationServices'')"
    by (simp add: consent_def consentingProps_def)
  have g: "\<not> includes_js (toLowerCase (js ''hello'')) (js ''@sahaay'')"
    by (simp add: js_def toLowerCase_def)
  have d: "gatherContext (offline calmWorld) consentingProps (messages (idleScreen (js ''hello'')))
        (trim (message (idleScreen (js ''hello''))))
       = (Inr helloRequest,
          [InitializeConfig, DetectMood (js ''hello''),
           GetHyperlocalContext (js ''Bangalore'') (js ''hello'')])"
    unfolding t using m l g
    by (simp add: gatherContext_def helloRequest_def idleScreen_def)
       (simp add: calmWorld_def offline_def)
  have e: "generateResponse (offline calmWorld) (trim (message (idleScreen (js ''hello''))))
        helloRequest = Inl networkDown"
    by (simp add: offline_def)
  have f: "setMessagesThrows (offline calmWorld) AddFallbackMessage = None"
    by (simp add: calmWorld_def offline_def)
  have sug: "getFallbackSuggestion (js ''hello'') = defaultSuggestion"
    by (simp add: getFallbackSuggestion_def js_def toLowerCase_def)
  have t': "trim (messageInput (idleApp True (Some (js ''sk-1'')) (js ''hello''))) = js ''hello''"
    by (simp add: idleApp_def trim_hello)
  have a': "currentChatId (idleApp True (Some (js ''sk-1'')) (js ''hello'')) = Some (js ''chat-1'')"
    by (simp add: idleApp_def)
  have b': "js ''chat-1'' \<noteq> []" by (simp add: js_def)
  have c': "trim (messageInput (idleApp True (Some (js ''sk-1'')) (js ''hello''))) \<noteq> []"
    unfolding t' by (rule ne)
  have d': "enabled (aiConfig (settings (idleApp True (Some (js ''sk-1'')) (js ''hello''))))"
    by (simp add: idleApp_def)
  have e': "truthy (apiKey (aiConfig (settings (idleApp True (Some (js ''sk-1'')) (js ''hello'')))))"
    by (simp add: idleApp_def truthy_def js_def)
  have f': "appOffline (appRequest (idleApp True (Some (js ''sk-1'')) (js ''hello'')) (js ''chat-1'')
        (trim (messageInput (idleApp True (Some (js ''sk-1'')) (js ''hello'')))))
       = Inl networkDown"
    by (simp add: appOffline_def)
  have e0: "app_messages (idleApp True (Some (js ''sk-1'')) (js ''hello'')) (js ''chat-1'') = None"
    by (simp add: idleApp_def)
  from fallback_on_generation_failure
    [of "idleScreen (js ''hello'')" "offline calmWorld" consentingProps helloRequest
        "[InitializeConfig, DetectMood (js ''hello''),
           GetHyperlocalContext (js ''Bangalore'') (js ''hello'')]" networkDown
        "idleApp True (Some (js ''sk-1'')) (js ''hello'')" "js ''chat-1''" appOffline networkDown]
    a b c d e f a' b' c' d' e' f'
  have "messages (sendMessage (offline calmWorld) consentingProps (idleScreen (js ''hello''))) =
       Some (orEmpty (messages (idleScreen (js ''hello'')))
         @ [userMessage (offline calmWorld) (trim (message (idleScreen (js ''hello'')))),
             fallbackMessage (offline calmWorld) (trim (message (idleScreen (js ''hello''))))])
     \<and> content (fallbackMessage (offline calmWorld) (trim (message (idleScreen (js ''hello''))))) =
        troubleshootingText @ getFallbackSuggestion (trim (message (idleScreen (js ''hello''))))
     \<and> app_messages (handleSendMessage appOffline (idleApp True (Some (js ''sk-1'')) (js ''hello'')))
        (js ''chat-1'') =
       Some (orEmpty (app_messages (idleApp True (Some (js ''sk-1'')) (js ''hello'')) (js ''chat-1''))
             @ [\<lparr>new_content = trim (messageInput (idleApp True (Some (js ''sk-1'')) (js ''hello''))),
                  new_sender = User, new_chatId = js ''chat-1'', new_metadata = None\<rparr>])"
    by blast
  then have "messages (sendMessage (offline calmWorld) consentingProps (idleScreen (js ''hello''))) =
       Some [userMessage (offline calmWorld) (js ''hello''),
             fallbackMessage (offline calmWorld) (js ''hello'')]
     \<and> content (fallbackMessage (offline calmWorld) (js ''hello'')) =
        troubleshootingText @ defaultSuggestion
     \<and> app_messages (handleSendMessage appOffline (idleApp True (Some (js ''sk-1'')) (js ''hello'')))
        (js ''chat-1'') =
       Some [\<lparr>new_content = js ''hello'', new_sender = User, new_chatId = js ''chat-1'',
              new_metadata = None\<rparr>]"
    unfolding t t' e0 sug by (simp add: idleScreen_def)
  with a b c d e f a' b' c' d' e' f' show ?thesis by blast
qed

text \<open>
  As first stated, for every send whose generation call throws, the statement fails in
  two ways. On the chat screen the generation call is made and throws, but the store
  rejects the write of the fallback: the message list holds the user message alone. In
  the messaging application the generation call is made and throws, and the chat holds
  the user message alone.
\<close>

theorem no_fallback_stored_counterexample:
  "generateResponse (storeRejects AddFallbackMessage (offline calmWorld)) (js ''hello'') helloRequest
       = Inl networkDown
   \<and> aiCalls (sendMessage (storeRejects AddFallbackMessage (offline calmWorld)) consentingProps
        (idleScreen (js ''hello''))) =
       [InitializeConfig, DetectMood (js ''hello''),
        GetHyperlocalContext (js ''Bangalore'') (js ''hello''),
        GenerateResponse (js ''hello'') helloRequest]
   \<and> messages (sendMessage (storeRejects AddFallbackMessage (offline calmWorld)) consentingProps
        (idleScreen (js ''hello''))) =
       Some [userMessage (storeRejects AddFallbackMessage (offline calmWorld)) (js ''hello'')]
   \<and> sender (userMessage (storeRejects AddFallbackMessage (offline calmWorld)) (js ''hello'')) = User
   \<and> appOffline (appRequest (idleApp True (Some (js ''sk-1'')) (js ''hello'')) (js ''chat-1'')
        (js ''hello'')) = Inl networkDown
   \<and> app_calls (handleSendMessage appOffline (idleApp True (Some (js ''sk-1'')) (js ''hello''))) =
       [appRequest (idleApp True (Some (js ''sk-1'')) (js ''hello'')) (js ''chat-1'') (js ''hello'')]
   \<and> app_messages (handleSendMessage appOffline (idleApp True (Some (js ''sk-1'')) (js ''hello'')))
        (js ''chat-1'') =
       Some [\<lparr>new_content = js ''hello'', new_sender = User, new_chatId = js ''chat-1'',
              new_metadata = None\<rparr>]"
proof -
  have ne: "js ''hello'' \<noteq> []" by (simp add: js_def)
  have m: "consent consentingProps (js ''moodDetection'')"
    by (simp add: consent_def consentingProps_def js_def)
  have l: "consent consentingProps (js ''locationServices'')"
    by (simp add: consent_def consentingProps_def)
  have g: "\<not> includes_js (toLowerCase (js ''hello'')) (js ''@sahaay'')"
    by (simp add: js_def toLowerCase_def)
  have ctx: "gatherContext (storeRejects AddFallbackMessage (offline calmWorld)) consentingProps
        None (js ''hello'')
      = (Inr helloRequest,
         [InitializeConfig, DetectMood (js ''hello''),
          GetHyperlocalContext (js ''Bangalore'') (js ''hello'')])"
    using m l g
    by (simp add: gatherContext_def helloRequest_def)
       (simp add: calmWorld_def storeRejects_def offline_def)
  have gen: "generateResponse (storeRejects AddFallbackMessage (offline calmWorld)) (js ''hello'')
       helloRequest = Inl networkDown"
    by (simp add: storeRejects_def offline_def)
  have u: "setMessagesThrows (storeRejects AddFallbackMessage (offline calmWorld)) AddUserMessage
      = None"
    by (simp add: calmWorld_def storeRejects_def offline_def)
  have r: "setMessagesThrows (storeRejects AddFallbackMessage (offline calmWorld))
      AddFallbackMessage = Some quotaExceeded"
    by (simp add: storeRejects_def)
  have s0: "message (idleScreen (js ''hello'')) = js ''hello''"
    "\<not> isSending (idleScreen (js ''hello''))"
    "messages (idleScreen (js ''hello'')) = None"
    "aiCalls (idleScreen (js ''hello'')) = []"
    by (simp_all add: idleScreen_def)
  have chat: "sendMessage (storeRejects AddFallbackMessage (offline calmWorld)) consentingProps
        (idleScreen (js ''hello'')) =
      (fallbackReply (storeRejects AddFallbackMessage (offline calmWorld)) (js ''hello'') networkDown
         ((idleScreen (js ''hello''))\<lparr>isSending := True,
             storeCalls := storeCalls (idleScreen (js ''hello'')) @ [AddUserMessage],
             messages := Some [userMessage (storeRejects AddFallbackMessage (offline calmWorld))
                                 (js ''hello'')],
             message := [], isTyping := True,
             aiCalls := [InitializeConfig, DetectMood (js ''hello''),
                GetHyperlocalContext (js ''Bangalore'') (js ''hello''),
                GenerateResponse (js ''hello'') helloRequest]\<rparr>))
      \<lparr>isTyping := False, isSending := False\<rparr>"
    using sendMessage_generation_throws
      [of "idleScreen (js ''hello'')" "storeRejects AddFallbackMessage (offline calmWorld)"
          consentingProps helloRequest
          "[InitializeConfig, DetectMood (js ''hello''),
            GetHyperlocalContext (js ''Bangalore'') (js ''hello'')]" networkDown]
      ne u ctx gen
    by (simp add: s0 trim_hello)
  have app: "handleSendMessage appOffline (idleApp True (Some (js ''sk-1'')) (js ''hello'')) =
     (idleApp True (Some (js ''sk-1'')) (js ''hello''))\<lparr>messageInput := [],
       app_messages := (app_messages (idleApp True (Some (js ''sk-1'')) (js ''hello'')))
         (js ''chat-1'' \<mapsto> [\<lparr>new_content = js ''hello'', new_sender = User,
              new_chatId = js ''chat-1'', new_metadata = None\<rparr>]),
       app_calls := [appRequest (idleApp True (Some (js ''sk-1'')) (js ''hello'')) (js ''chat-1'')
            (js ''hello'')],
       app_console := [ConsoleErrorOf (js ''AI Error:'') networkDown],
       app_toasts := [ToastError (js ''Failed to generate AI response'')],
       isGenerating := False\<rparr>"
    using handleSendMessage_generation_throws
      [of "idleApp True (Some (js ''sk-1'')) (js ''hello'')" "js ''chat-1''" appOffline networkDown]
      ne
    by (simp add: idleApp_def trim_hello truthy_def appOffline_def) (simp add: js_def)
  show ?thesis
    by (simp add: gen chat app fallbackReply_rejects [OF r] appOffline_def userMessage_def)
qed

section \<open>Consent and the enrichment calls\<close>

lemma deliverReply_aiCalls: "aiCalls (deliverReply w p reply s) = aiCalls s"
  by (simp add: deliverReply_def setMessages_def toastError_def Let_def split: option.splits)

lemma fallbackReply_aiCalls: "aiCalls (fallbackReply w currentMessage error s) = aiCalls s"
  by (simp add: fallbackReply_def setMessages_def toastError_def consoleError_def Let_def
      split: option.splits)

lemma generateReply_aiCalls:
  "aiCalls (snd (generateReply w p rendered currentMessage s)) =
     aiCalls s @ snd (gatherContext w p rendered currentMessage)
       @ (case fst (gatherContext w p rendered currentMessage) of
            Inl error \<Rightarrow> []
          | Inr request \<Rightarrow> [GenerateResponse currentMessage request])"
  by (simp add: generateReply_def deliverReply_aiCalls Let_def split: prod.splits sum.splits)

lemma callsOfSend_eq:
  "callsOfSend w p s =
    (if trim (message s) = [] \<or> isSending s \<or> setMessagesThrows w AddUserMessage \<noteq> None then []
     else snd (gatherContext w p (messages s) (trim (message s)))
       @ (case fst (gatherContext w p (messages s) (trim (message s))) of
            Inl error \<Rightarrow> []
          | Inr request \<Rightarrow> [GenerateResponse (trim (message s)) request]))"
proof (cases "trim (message s) = [] \<or> isSending s")
  case True
  then show ?thesis by (auto simp add: callsOfSend_def sendMessage_def)
next
  case False
  show ?thesis
  proof (cases "setMessagesThrows w AddUserMessage")
    case None
    let ?s3 = "s\<lparr>isSending := True, storeCalls := storeCalls s @ [AddUserMessage],
                 messages := Some (appendTo (userMessage w (trim (message s))) (messages s)),
                 message := [], isTyping := True\<rparr>"
    have "aiCalls (sendMessage w p s) =
        aiCalls (snd (generateReply w p (messages s) (trim (message s)) ?s3))"
      using False None
      by (simp add: sendMessage_def setMessages_accepts Let_def fallbackReply_aiCalls
          split: prod.splits option.splits)
    then show ?thesis
      using False None by (simp add: callsOfSend_def generateReply_aiCalls)
  next
    case (Some error)
    then show ?thesis
      using False
      by (simp add: callsOfSend_def sendMessage_def setMessages_rejects toastError_def
          consoleError_def)
  qed
qed

lemma gatherContext_calls:
  "snd (gatherContext w p rendered currentMessage) =
     (if initializeConfig w = None
      then [InitializeConfig]
           @ (if consent p (js ''moodDetection'') then [DetectMood currentMessage] else [])
           @ (if consent p (js ''locationServices'')
              then [GetHyperlocalContext (js ''Bangalore'') currentMessage] else [])
      else [InitializeConfig])"
  by (simp add: gatherContext_def Let_def split: option.splits sum.splits)

lemma gatherContext_answers:
  assumes "gatherContext w p rendered currentMessage = (Inr request, calls)"
  shows "(consent p (js ''moodDetection'')
           \<longrightarrow> detectMood w currentMessage = Inr (ctx_mood request))
    \<and> (consent p (js ''locationServices'')
           \<longrightarrow> getHyperlocalContext w (js ''Bangalore'') currentMessage
                 = Inr (ctx_location request))"
  using assms
  by (auto simp add: gatherContext_def Let_def split: option.splits sum.splits if_splits)

lemma generation_call_request:
  assumes "GenerateResponse text request \<in> set (callsOfSend w p s)"
  shows "\<exists>calls. gatherContext w p (messages s) (trim (message s)) = (Inr request, calls)"
proof -
  have "GenerateResponse text request
      \<notin> set (snd (gatherContext w p (messages s) (trim (message s))))"
    by (simp add: gatherContext_calls)
  with assms have "fst (gatherContext w p (messages s) (trim (message s))) = Inr request"
    by (auto simp add: callsOfSend_eq split: if_splits sum.splits)
  then show ?thesis
    by (cases "gatherContext w p (messages s) (trim (message s))") simp
qed

lemma generation_request_answers:
  assumes "GenerateResponse text request \<in> set (callsOfSend w p s)"
  shows "(consent p (js ''moodDetection'')
           \<longrightarrow> detectMood w (trim (message s)) = Inr (ctx_mood request))
    \<and> (consent p (js ''locationServices'')
           \<longrightarrow> getHyperlocalContext w (js ''Bangalore'') (trim (message s))
                 = Inr (ctx_location request))"
  using generation_call_request [OF assms] gatherContext_answers by blast

lemma unreached_enrichment:
  "callsOfSend (unconfigured calmWorld) consentingProps (idleScreen (js ''hello''))
     = [InitializeConfig]"
  "callsOfSend calmWorld consentingProps (idleScreen (js ''  '')) = []"
  "callsOfSend (storeRejects AddUserMessage calmWorld) consentingProps (idleScreen (js ''hello''))
     = []"
proof -
  have ne: "js ''hello'' \<noteq> []" by (simp add: js_def)
  have t: "trim (message (idleScreen (js ''hello''))) = js ''hello''"
    by (simp add: idleScreen_def trim_hello)
  have b: "\<not> isSending (idleScreen (js ''hello''))" by (simp add: idleScreen_def)
  have u: "setMessagesThrows (unconfigured calmWorld) AddUserMessage = None"
    by (simp add: unconfigured_def calmWorld_def)
  have g: "gatherContext (unconfigured calmWorld) consentingProps
      (messages (idleScreen (js ''hello''))) (js ''hello'') = (Inl networkDown, [InitializeConfig])"
    by (simp add: gatherContext_def unconfigured_def)
  show "callsOfSend (unconfigured calmWorld) consentingProps (idleScreen (js ''hello''))
     = [InitializeConfig]"
    using ne b u by (simp add: callsOfSend_eq t g)
  show "callsOfSend calmWorld consentingProps (idleScreen (js ''  '')) = []"
    by (simp add: callsOfSend_eq idleScreen_def trim_blank)
  show "callsOfSend (storeRejects AddUserMessage calmWorld) consentingProps
      (idleScreen (js ''hello'')) = []"
    by (simp add: callsOfSend_eq storeRejects_def)
qed

lemma gatherContext_ignores_detectMood:
  "\<not> consent p (js ''moodDetection'') \<Longrightarrow>
   gatherContext (w\<lparr>detectMood := otherMood\<rparr>) p rendered currentMessage
     = gatherContext w p rendered currentMessage"
  by (simp add: gatherContext_def Let_def split: option.splits sum.splits)

lemma gatherContext_ignores_getHyperlocalContext:
  "\<not> consent p (js ''locationServices'') \<Longrightarrow>
   gatherContext (w\<lparr>getHyperlocalContext := otherLocation\<rparr>) p rendered currentMessage
     = gatherContext w p rendered currentMessage"
  by (simp add: gatherContext_def Let_def split: option.splits sum.splits)

lemma setMessages_ignores_collaborators:
  "setMessages (w\<lparr>detectMood := otherMood\<rparr>) = setMessages w"
  "setMessages (w\<lparr>getHyperlocalContext := otherLocation\<rparr>) = setMessages w"
  by (simp_all add: setMessages_def fun_eq_iff)

lemma deliverReply_ignores_collaborators:
  "deliverReply (w\<lparr>detectMood := otherMood\<rparr>) = deliverReply w"
  "deliverReply (w\<lparr>getHyperlocalContext := otherLocation\<rparr>) = deliverReply w"
  by (simp_all add: deliverReply_def setMessages_ignores_collaborators fun_eq_iff Let_def
      split: prod.splits option.splits)

lemma fallbackReply_ignores_collaborators:
  "fallbackReply (w\<lparr>detectMood := otherMood\<rparr>) = fallbackReply w"
  "fallbackReply (w\<lparr>getHyperlocalContext := otherLocation\<rparr>) = fallbackReply w"
  by (simp_all add: fallbackReply_def setMessages_ignores_collaborators fallbackMessage_def
      fun_eq_iff Let_def split: prod.splits option.splits)

lemma generateReply_ignores_detectMood:
  "\<not> consent p (js ''moodDetection'') \<Longrightarrow>
   generateReply (w\<lparr>detectMood := otherMood\<rparr>) p rendered currentMessage s
     = generateReply w p rendered currentMessage s"
  by (simp add: generateReply_def gatherContext_ignores_detectMood
      deliverReply_ignores_collaborators aiMessage_def Let_def
      split: prod.splits sum.splits)

lemma generateReply_ignores_getHyperlocalContext:
  "\<not> consent p (js ''locationServices'') \<Longrightarrow>
   generateReply (w\<lparr>getHyperlocalContext := otherLocation\<rparr>) p rendered currentMessage s
     = generateReply w p rendered currentMessage s"
  by (simp add: generateReply_def gatherContext_ignores_getHyperlocalContext
      deliverReply_ignores_collaborators aiMessage_def Let_def
      split: prod.splits sum.splits)

lemma sendMessage_ignores_detectMood:
  "\<not> consent p (js ''moodDetection'') \<Longrightarrow>
   sendMessage (w\<lparr>detectMood := otherMood\<rparr>) p s = sendMessage w p s"
  by (simp add: sendMessage_def generateReply_ignores_detectMood
      setMessages_ignores_collaborators fallbackReply_ignores_collaborators
      userMessage_def kvKey_def Let_def split: prod.splits option.splits)

lemma sendMessage_ignores_getHyperlocalContext:
  "\<not> consent p (js ''locationServices'') \<Longrightarrow>
   sendMessage (w\<lparr>getHyperlocalContext := otherLocation\<rparr>) p s = sendMessage w p s"
  by (simp add: sendMessage_def generateReply_ignores_getHyperlocalContext
      setMessages_ignores_collaborators fallbackReply_ignores_collaborators
      userMessage_def kvKey_def Let_def split: prod.splits option.splits)

text \<open>
  C6, as amended. In a send that reaches the enrichment step (the guard is passed, the
  store accepts the user message and \<open>initializeConfig\<close> returns), the mood collaborator
  is called, with the trimmed input, if and only if the mood detection consent is given,
  and the hyperlocal collaborator is called, for Bangalore and the trimmed input, if and
  only if the location consent is given. No send calls a collaborator whose consent is
  missing. With a consent, every generation request carries the answer of that
  collaborator: the mood it returned for the trimmed input, the location context it
  returned for Bangalore and the trimmed input. Without the mood detection consent the
  send is the same whatever the mood collaborator would answer, and every generation
  request carries the neutral mood of confidence 0; without the location consent the send
  is the same whatever the hyperlocal collaborator would answer, and every generation
  request carries the empty location.
\<close>

theorem consent_gates_enrichment:
  "(trim (message s) \<noteq> [] \<and> \<not> isSending s \<and> setMessagesThrows w AddUserMessage = None
      \<and> initializeConfig w = None \<longrightarrow>
        (DetectMood (trim (message s)) \<in> set (callsOfSend w p s)
           \<longleftrightarrow> consent p (js ''moodDetection''))
      \<and> (GetHyperlocalContext (js ''Bangalore'') (trim (message s)) \<in> set (callsOfSend w p s)
           \<longleftrightarrow> consent p (js ''locationServices'')))
   \<and> (DetectMood text \<in> set (callsOfSend w p s) \<longrightarrow> consent p (js ''moodDetection''))
   \<and> (GetHyperlocalContext city text \<in> set (callsOfSend w p s)
        \<longrightarrow> consent p (js ''locationServices''))
   \<and> (\<not> consent p (js ''moodDetection'') \<longrightarrow>
        sendMessage (w\<lparr>detectMood := otherMood\<rparr>) p s = sendMessage w p s
        \<and> (GenerateResponse text request \<in> set (callsOfSend w p s)
             \<longrightarrow> ctx_mood request = defaultMood))
   \<and> (\<not> consent p (js ''locationServices'') \<longrightarrow>
        sendMessage (w\<lparr>getHyperlocalContext := otherLocation\<rparr>) p s = sendMessage w p s
        \<and> (GenerateResponse text request \<in> set (callsOfSend w p s)
             \<longrightarrow> ctx_location request = defaultLocation))
   \<and> (consent p (js ''moodDetection'')
        \<and> GenerateResponse text request \<in> set (callsOfSend w p s)
       \<longrightarrow> detectMood w (trim (message s)) = Inr (ctx_mood request))
   \<and> (consent p (js ''locationServices'')
        \<and> GenerateResponse text request \<in> set (callsOfSend w p s)
       \<longrightarrow> getHyperlocalContext w (js ''Bangalore'') (trim (message s))
             = Inr (ctx_location request))"
proof -
  have gen: "GenerateResponse text request \<in> set (callsOfSend w p s) \<Longrightarrow>
      \<exists>calls. gatherContext w p (messages s) (trim (message s)) = (Inr request, calls)"
    by (rule generation_call_request)
  have mood: "\<not> consent p (js ''moodDetection'') \<Longrightarrow>
      GenerateResponse text request \<in> set (callsOfSend w p s) \<Longrightarrow> ctx_mood request = defaultMood"
    using gen gatherContext_request by fastforce
  have loc: "\<not> consent p (js ''locationServices'') \<Longrightarrow>
      GenerateResponse text request \<in> set (callsOfSend w p s)
      \<Longrightarrow> ctx_location request = defaultLocation"
    using gen gatherContext_request by fastforce
  have iff: "trim (message s) \<noteq> [] \<and> \<not> isSending s \<and> setMessagesThrows w AddUserMessage = None
      \<and> initializeConfig w = None \<longrightarrow>
        (DetectMood (trim (message s)) \<in> set (callsOfSend w p s)
           \<longleftrightarrow> consent p (js ''moodDetection''))
      \<and> (GetHyperlocalContext (js ''Bangalore'') (trim (message s)) \<in> set (callsOfSend w p s)
           \<longleftrightarrow> consent p (js ''locationServices''))"
    by (auto simp add: callsOfSend_eq gatherContext_calls split: sum.splits)
  have only1: "DetectMood text \<in> set (callsOfSend w p s) \<longrightarrow> consent p (js ''moodDetection'')"
    by (auto simp add: callsOfSend_eq gatherContext_calls split: sum.splits if_splits)
  have only2: "GetHyperlocalContext city text \<in> set (callsOfSend w p s)
        \<longrightarrow> consent p (js ''locationServices'')"
    by (auto simp add: callsOfSend_eq gatherContext_calls split: sum.splits if_splits)
  have quiet1: "\<not> consent p (js ''moodDetection'') \<longrightarrow>
        sendMessage (w\<lparr>detectMood := otherMood\<rparr>) p s = sendMessage w p s
        \<and> (GenerateResponse text request \<in> set (callsOfSend w p s)
             \<longrightarrow> ctx_mood request = defaultMood)"
    using mood sendMessage_ignores_detectMood by blast
  have quiet2: "\<not> consent p (js ''locationServices'') \<longrightarrow>
        sendMessage (w\<lparr>getHyperlocalContext := otherLocation\<rparr>) p s = sendMessage w p s
        \<and> (GenerateResponse text request \<in> set (callsOfSend w p s)
             \<longrightarrow> ctx_location request = defaultLocation)"
    using loc sendMessage_ignores_getHyperlocalContext by blast
  have answer1: "consent p (js ''moodDetection'')
        \<and> GenerateResponse text request \<in> set (callsOfSend w p s)
       \<longrightarrow> detectMood w (trim (message s)) = Inr (ctx_mood request)"
    using generation_request_answers by blast
  have answer2: "consent p (js ''locationServices'')
        \<and> GenerateResponse text request \<in> set (callsOfSend w p s)
       \<longrightarrow> getHyperlocalContext w (js ''Bangalore'') (trim (message s))
             = Inr (ctx_location request)"
    using generation_request_answers by blast
  show ?thesis
    by (intro conjI iff only1 only2 quiet1 quiet2 answer1 answer2)
qed

text \<open>
  The input \<open>hello\<close> without consents: only \<open>initializeConfig\<close> and the generation
  call are made, the request carries the defaults, and collaborators that would reject
  change nothing. With both consents, both collaborators are called and the request
  carries what they returned.
\<close>

theorem consent_gates_enrichment_witness:
  "trim (message (idleScreen (js ''hello''))) \<noteq> []
   \<and> \<not> isSending (idleScreen (js ''hello''))
   \<and> setMessagesThrows calmWorld AddUserMessage = None
   \<and> initializeConfig calmWorld = None
   \<and> \<not> consent decliningProps (js ''moodDetection'')
   \<and> \<not> consent decliningProps (js ''locationServices'')
   \<and> callsOfSend calmWorld decliningProps (idleScreen (js ''hello''))
       = [InitializeConfig, GenerateResponse (js ''hello'') plainRequest]
   \<and> ctx_mood plainRequest = defaultMood
   \<and> ctx_location plainRequest = defaultLocation
   \<and> sendMessage (calmWorld\<lparr>detectMood := moodFails\<rparr>) decliningProps (idleScreen (js ''hello''))
       = sendMessage calmWorld decliningProps (idleScreen (js ''hello''))
   \<and> sendMessage (calmWorld\<lparr>getHyperlocalContext := locationFails\<rparr>) decliningProps
        (idleScreen (js ''hello''))
       = sendMessage calmWorld decliningProps (idleScreen (js ''hello''))
   \<and> consent consentingProps (js ''moodDetection'')
   \<and> consent consentingProps (js ''locationServices'')
   \<and> DetectMood (js ''hello'') \<in> set (callsOfSend calmWorld consentingProps (idleScreen (js ''hello'')))
   \<and> GetHyperlocalContext (js ''Bangalore'') (js ''hello'')
        \<in> set (callsOfSend calmWorld consentingProps (idleScreen (js ''hello'')))
   \<and> GenerateResponse (js ''hello'') helloRequest
        \<in> set (callsOfSend calmWorld consentingProps (idleScreen (js ''hello'')))
   \<and> detectMood calmWorld (js ''hello'') = Inr (ctx_mood helloRequest)
   \<and> getHyperlocalContext calmWorld (js ''Bangalore'') (js ''hello'')
       = Inr (ctx_location helloRequest)"
proof -
  have t: "trim (message (idleScreen (js ''hello''))) = js ''hello''"
    by (simp add: idleScreen_def trim_hello)
  have ne: "js ''hello'' \<noteq> []" by (simp add: js_def)
  have a: "trim (message (idleScreen (js ''hello''))) \<noteq> []"
    unfolding t by (rule ne)
  have b: "\<not> isSending (idleScreen (js ''hello''))"
    by (simp add: idleScreen_def)
  have c: "setMessagesThrows calmWorld AddUserMessage = None"
    by (simp add: calmWorld_def)
  have i: "initializeConfig calmWorld = None"
    by (simp add: calmWorld_def)
  have n: "\<not> consent decliningProps (js ''moodDetection'')"
    by (simp add: consent_def decliningProps_def)
  have n': "\<not> consent decliningProps (js ''locationServices'')"
    by (simp add: consent_def decliningProps_def js_def)
  have m: "consent consentingProps (js ''moodDetection'')"
    by (simp add: consent_def consentingProps_def js_def)
  have l: "consent consentingProps (js ''locationServices'')"
    by (simp add: consent_def consentingProps_def)
  have g: "\<not> includes_js (toLowerCase (js ''hello'')) (js ''@sahaay'')"
    by (simp add: js_def toLowerCase_def)
  have d: "gatherContext calmWorld decliningProps (messages (idleScreen (js ''hello'')))
        (js ''hello'') = (Inr plainRequest, [InitializeConfig])"
    using n n' g
    by (simp add: gatherContext_def idleScreen_def helloRequest_def plainRequest_def)
       (simp add: calmWorld_def)
  have calls: "callsOfSend calmWorld decliningProps (idleScreen (js ''hello''))
       = [InitializeConfig, GenerateResponse (js ''hello'') plainRequest]"
    using a b c by (simp add: callsOfSend_eq) (simp add: t d)
  have inst: "GenerateResponse (js ''hello'') plainRequest
      \<in> set (callsOfSend calmWorld decliningProps (idleScreen (js ''hello'')))"
    by (simp add: calls)
  note declining = consent_gates_enrichment
    [of "idleScreen (js ''hello'')" calmWorld decliningProps "js ''hello''"
        "js ''Bangalore''" moodFails plainRequest locationFails]
  note consenting = consent_gates_enrichment
    [of "idleScreen (js ''hello'')" calmWorld consentingProps "js ''hello''"
        "js ''Bangalore''" moodFails plainRequest locationFails]
  from declining n n' inst
  have r1: "ctx_mood plainRequest = defaultMood \<and> ctx_location plainRequest = defaultLocation
    \<and> sendMessage (calmWorld\<lparr>detectMood := moodFails\<rparr>) decliningProps (idleScreen (js ''hello''))
       = sendMessage calmWorld decliningProps (idleScreen (js ''hello''))
    \<and> sendMessage (calmWorld\<lparr>getHyperlocalContext := locationFails\<rparr>) decliningProps
        (idleScreen (js ''hello''))
       = sendMessage calmWorld decliningProps (idleScreen (js ''hello''))"
    by blast
  from consenting a b c i m l
  have r2: "DetectMood (js ''hello'')
        \<in> set (callsOfSend calmWorld consentingProps (idleScreen (js ''hello'')))
    \<and> GetHyperlocalContext (js ''Bangalore'') (js ''hello'')
        \<in> set (callsOfSend calmWorld consentingProps (idleScreen (js ''hello'')))"
    unfolding t by blast
  have d': "gatherContext calmWorld consentingProps (messages (idleScreen (js ''hello'')))
        (js ''hello'')
      = (Inr helloRequest,
         [InitializeConfig, DetectMood (js ''hello''),
          GetHyperlocalContext (js ''Bangalore'') (js ''hello'')])"
    using m l g
    by (simp add: gatherContext_def idleScreen_def helloRequest_def) (simp add: calmWorld_def)
  have inst': "GenerateResponse (js ''hello'') helloRequest
      \<in> set (callsOfSend calmWorld consentingProps (idleScreen (js ''hello'')))"
    using a b c by (simp add: callsOfSend_eq) (simp add: t d')
  from consent_gates_enrichment
    [of "idleScreen (js ''hello'')" calmWorld consentingProps "js ''hello''"
        "js ''Bangalore''" moodFails helloRequest locationFails] m l inst'
  have r3: "detectMood calmWorld (trim (message (idleScreen (js ''hello''))))
        = Inr (ctx_mood helloRequest)
    \<and> getHyperlocalContext calmWorld (js ''Bangalore'')
         (trim (message (idleScreen (js ''hello'')))) = Inr (ctx_location helloRequest)"
    by blast
  then have r3': "detectMood calmWorld (js ''hello'') = Inr (ctx_mood helloRequest)
    \<and> getHyperlocalContext calmWorld (js ''Bangalore'') (js ''hello'')
        = Inr (ctx_location helloRequest)"
    unfolding t .
  from a b c i n n' calls r1 m l r2 inst' r3' show ?thesis by blast
qed

text \<open>
  As first stated, with the consent alone as the condition, the statement fails: with
  both consents given no collaborator is called when \<open>initializeConfig\<close> rejects (it is
  awaited before the enrichment calls, and its rejection leads to the fallback), when
  the guard stops the send, or when the store rejects the user message.
\<close>

theorem enrichment_not_reached_counterexample:
  "consent consentingProps (js ''moodDetection'')
   \<and> consent consentingProps (js ''locationServices'')
   \<and> callsOfSend (unconfigured calmWorld) consentingProps (idleScreen (js ''hello''))
       = [InitializeConfig]
   \<and> callsOfSend calmWorld consentingProps (idleScreen (js ''  '')) = []
   \<and> callsOfSend (storeRejects AddUserMessage calmWorld) consentingProps
        (idleScreen (js ''hello'')) = []"
proof -
  have m: "consent consentingProps (js ''moodDetection'')"
    by (simp add: consent_def consentingProps_def js_def)
  have l: "consent consentingProps (js ''locationServices'')"
    by (simp add: consent_def consentingProps_def)
  from m l unreached_enrichment show ?thesis by blast
qed

section \<open>The message list only grows at its end\<close>

lemma messages_toastError [simp]: "messages (toastError text s) = messages s"
  by (simp add: toastError_def)

lemma messages_consoleError [simp]: "messages (consoleError line s) = messages s"
  by (simp add: consoleError_def)

lemma messages_setMessages:
  "orEmpty (messages (snd (setMessages w operation (appendTo m) s))) =
     orEmpty (messages s) @ (if setMessagesThrows w operation = None then [m] else [])"
  by (simp add: setMessages_def appendTo_def Let_def split: option.splits)

lemma messages_deliverReply:
  "orEmpty (messages (deliverReply w p reply s)) =
     orEmpty (messages s) @ (if setMessagesThrows w AddAIMessage = None then [reply] else [])"
  by (simp add: deliverReply_def setMessages_def appendTo_def Let_def split: option.splits)

lemma messages_fallbackReply:
  "orEmpty (messages (fallbackReply w currentMessage error s)) =
     orEmpty (messages s)
     @ (if setMessagesThrows w AddFallbackMessage = None then [fallbackMessage w currentMessage]
        else [])"
  by (simp add: fallbackReply_def setMessages_def appendTo_def Let_def split: option.splits)

lemma keepsMessages_iff:
  "keepsMessages s s' \<longleftrightarrow> (\<exists>new. orEmpty (messages s') = orEmpty (messages s) @ new)"
  unfolding keepsMessages_def
  by (metis append_eq_conv_conj)

lemma keepsMessages_trans:
  "keepsMessages a b \<Longrightarrow> keepsMessages b c \<Longrightarrow> keepsMessages a c"
  unfolding keepsMessages_iff by auto

lemma keepsMessages_generateReply:
  "keepsMessages s (snd (generateReply w p rendered currentMessage s))"
  by (simp add: keepsMessages_iff generateReply_def messages_deliverReply Let_def
      split: prod.splits sum.splits)

lemma keepsMessages_sendMessage: "keepsMessages s (sendMessage w p s)"
proof (cases "trim (message s) = [] \<or> isSending s")
  case True
  then show ?thesis by (auto simp add: sendMessage_def keepsMessages_def)
next
  case False
  show ?thesis
  proof (cases "setMessagesThrows w AddUserMessage")
    case (Some error)
    with False show ?thesis
      by (simp add: sendMessage_def setMessages_rejects keepsMessages_def)
  next
    case None
    let ?s3 = "s\<lparr>isSending := True, storeCalls := storeCalls s @ [AddUserMessage],
                 messages := Some (appendTo (userMessage w (trim (message s))) (messages s)),
                 message := [], isTyping := True\<rparr>"
    let ?r = "generateReply w p (messages s) (trim (message s)) ?s3"
    have 1: "keepsMessages s ?s3"
      by (simp add: keepsMessages_iff appendTo_def)
    have 2: "keepsMessages ?s3 (snd ?r)"
      by (rule keepsMessages_generateReply)
    have 3: "keepsMessages (snd ?r) (sendMessage w p s)"
      using False None
      by (simp add: sendMessage_def setMessages_accepts Let_def keepsMessages_iff
          messages_fallbackReply split: prod.splits option.splits)
    from 1 2 3 show ?thesis by (blast intro: keepsMessages_trans)
  qed
qed

lemma keepsMessages_uploadFailed: "keepsMessages s (uploadFailed w error s)"
  by (simp add: keepsMessages_iff uploadFailed_def setMessages_def appendTo_def Let_def
      split: option.splits thrown.splits)

lemma keepsMessages_processImageUpload: "keepsMessages s (processImageUpload w file s)"
proof (cases "setMessagesThrows w AddImageMessage")
  case (Some error)
  then show ?thesis
    by (simp add: processImageUpload_def setMessages_rejects keepsMessages_def)
next
  case None
  let ?s2 = "s\<lparr>storeCalls := storeCalls s @ [AddImageMessage],
               messages := Some (appendTo (imageMessage w file) (messages s)),
               isTyping := True\<rparr>"
  have 1: "keepsMessages s ?s2"
    by (simp add: keepsMessages_iff appendTo_def)
  have 2: "keepsMessages ?s2 (processImageUpload w file s)"
    using None keepsMessages_uploadFailed [of ?s2 w]
    by (simp add: processImageUpload_def setMessages_accepts Let_def)
       (simp add: keepsMessages_def)
  from 1 2 show ?thesis by (rule keepsMessages_trans)
qed

lemma keepsMessages_billTimerFires: "keepsMessages s (billTimerFires w s)"
  by (simp add: keepsMessages_iff billTimerFires_def setMessages_def appendTo_def Let_def
      split: option.splits list.splits)

lemma appendMessages_accepted:
  "setMessagesThrows w operation = None \<Longrightarrow>
   orEmpty (messages (appendMessages w operation ms s)) = orEmpty (messages s) @ ms"
proof (induction ms arbitrary: s)
  case Nil
  then show ?case by (simp add: appendMessages_def)
next
  case (Cons m ms)
  have "appendMessages w operation (m # ms) s =
      appendMessages w operation ms (snd (setMessages w operation (appendTo m) s))"
    by (simp add: appendMessages_def)
  then show ?case
    using Cons by (simp add: messages_setMessages)
qed

text \<open>
  C7. Writing a sequence of messages to a store that accepts the writes, one write each
  with the updater of the source, and reading the list gives the list as it was followed
  by exactly those messages, in the order written and as they were written. The updater
  is a function of the previous sequence alone: the old list with the new message at its
  end. No handler of the chat screen reorders, drops or changes a stored message: after
  \<open>sendMessage\<close>, \<open>processImageUpload\<close>, \<open>processFileUpload\<close>, the firing of the bill
  timer and the initialisation of the AI service, the messages stored before are the
  first messages of the list, unchanged.
\<close>

theorem store_keeps_insertion_order:
  "(setMessagesThrows w operation = None \<longrightarrow>
      orEmpty (messages (appendMessages w operation ms s)) = orEmpty (messages s) @ ms)
   \<and> appendTo m prev = orEmpty prev @ [m]
   \<and> keepsMessages s (sendMessage w p s)
   \<and> keepsMessages s (processImageUpload w file s)
   \<and> keepsMessages s (processFileUpload w files s)
   \<and> keepsMessages s (billTimerFires w s)
   \<and> keepsMessages s (initializeAI w s)"
proof -
  have 1: "keepsMessages s (processFileUpload w files s)"
    using keepsMessages_processImageUpload
    by (simp add: processFileUpload_def split: list.splits) (simp add: keepsMessages_def)
  have 2: "keepsMessages s (initializeAI w s)"
    by (simp add: initializeAI_def keepsMessages_def Let_def split: option.splits)
  show ?thesis
    using appendMessages_accepted keepsMessages_sendMessage keepsMessages_processImageUpload
      keepsMessages_billTimerFires 1 2
    by (simp add: appendTo_def)
qed

text \<open>
  Three writes to an empty chat, the first and the last of the same message: the list
  read back holds all three, in the order written.
\<close>

theorem store_keeps_insertion_order_witness:
  "setMessagesThrows calmWorld AddUserMessage = None
   \<and> orEmpty (messages (appendMessages calmWorld AddUserMessage
        [userMessage calmWorld (js ''hello''), fallbackMessage calmWorld (js ''hello''),
         userMessage calmWorld (js ''hello'')] (idleScreen [])))
       = [userMessage calmWorld (js ''hello''), fallbackMessage calmWorld (js ''hello''),
          userMessage calmWorld (js ''hello'')]"
proof -
  have a: "setMessagesThrows calmWorld AddUserMessage = None"
    by (simp add: calmWorld_def)
  from store_keeps_insertion_order
    [of calmWorld AddUserMessage
        "[userMessage calmWorld (js ''hello''), fallbackMessage calmWorld (js ''hello''),
          userMessage calmWorld (js ''hello'')]" "idleScreen []"] a
  have "orEmpty (messages (appendMessages calmWorld AddUserMessage
        [userMessage calmWorld (js ''hello''), fallbackMessage calmWorld (js ''hello''),
         userMessage calmWorld (js ''hello'')] (idleScreen [])))
       = orEmpty (messages (idleScreen []))
         @ [userMessage calmWorld (js ''hello''), fallbackMessage calmWorld (js ''hello''),
            userMessage calmWorld (js ''hello'')]"
    by blast
  with a show ?thesis by (simp add: idleScreen_def)
qed

section \<open>An image that is too large\<close>

lemma uploadFailed_accepts:
  "setMessagesThrows w AddErrorMessage = None \<Longrightarrow>
   uploadFailed w (Error text) s =
     s\<lparr>isTyping := False,
       toasts := toasts s @ [ToastError text],
       storeCalls := storeCalls s @ [AddErrorMessage],
       messages := Some (orEmpty (messages s) @ [errorResponse w text])\<rparr>"
  by (simp add: uploadFailed_def toastError_def setMessages_accepts appendTo_def Let_def)

lemma uploadFailed_rejects:
  "setMessagesThrows w AddErrorMessage = Some kvError \<Longrightarrow>
   uploadFailed w (Error text) s =
     s\<lparr>isTyping := False,
       toasts := toasts s @ [ToastError text],
       storeCalls := storeCalls s @ [AddErrorMessage],
       console := console s
         @ [ConsoleError (handleKVError w kvError (js ''add error message'') None)]\<rparr>"
  by (simp add: uploadFailed_def toastError_def consoleError_def setMessages_rejects Let_def)

lemma timers_uploadFailed: "timers (uploadFailed w error s) = timers s"
  by (simp add: uploadFailed_def toastError_def consoleError_def setMessages_def Let_def
      split: option.splits thrown.splits)

lemma storeCalls_uploadFailed:
  "storeCalls (uploadFailed w error s) = storeCalls s @ [AddErrorMessage]"
  by (simp add: uploadFailed_def toastError_def consoleError_def setMessages_def Let_def
      split: option.splits thrown.splits)

lemma oversized_no_timer:
  "file_size file > 10 * 1024 * 1024 \<Longrightarrow>
   timers (processImageUpload w file s) = timers s
   \<and> AddBillResponse \<notin> set (drop (length (storeCalls s)) (storeCalls (processImageUpload w file s)))"
  by (simp add: processImageUpload_def setMessages_def Let_def toastError_def
      timers_uploadFailed storeCalls_uploadFailed split: option.splits)

text \<open>
  C8, as amended. For an image file larger than 10 MiB (10 * 1024 * 1024 bytes) no bill
  timer is set and no write of a bill response is attempted, whatever the store does.
  When the store accepts the write of the image message and the write of the error
  message, the message list grows by exactly the user image message and one AI error
  message with confidence 0, whose content is the error mark followed by the text of the
  size check; the error message is not the bill response, and the text of the size check
  is shown in a toast. A selected file whose type starts with \<open>image/\<close> is handled by
  \<open>processImageUpload\<close>.
\<close>

theorem oversized_image_rejected:
  "file_size file > 10 * 1024 * 1024 \<longrightarrow>
     timers (processImageUpload w file s) = timers s
     \<and> AddBillResponse
         \<notin> set (drop (length (storeCalls s)) (storeCalls (processImageUpload w file s)))
     \<and> (setMessagesThrows w AddImageMessage = None \<and> setMessagesThrows w AddErrorMessage = None
        \<longrightarrow> messages (processImageUpload w file s) =
              Some (orEmpty (messages s) @ [imageMessage w file, errorResponse w sizeTooLarge])
            \<and> sender (imageMessage w file) = User
            \<and> type' (imageMessage w file) = Image
            \<and> sender (errorResponse w sizeTooLarge) = AI
            \<and> content (errorResponse w sizeTooLarge) =
                [0x274C] @ js '' Error processing image: '' @ sizeTooLarge
            \<and> metadata (errorResponse w sizeTooLarge) =
                Some \<lparr>confidence = Some 0, needsPermission = None, actionItems = None,
                      disclaimer = Some (js ''Error occurred during file processing.'')\<rparr>
            \<and> errorResponse w sizeTooLarge \<noteq> billResponse w
            \<and> toasts (processImageUpload w file s) = toasts s @ [ToastError sizeTooLarge])
     \<and> (startsWith (file_type file) (js ''image/'')
        \<longrightarrow> processFileUpload w (file # others) s = processImageUpload w file s)"
proof (intro impI conjI)
  assume big: "file_size file > 10 * 1024 * 1024"
  show "timers (processImageUpload w file s) = timers s"
    using oversized_no_timer [OF big] by blast
  show "AddBillResponse
         \<notin> set (drop (length (storeCalls s)) (storeCalls (processImageUpload w file s)))"
    using oversized_no_timer [OF big] by blast
  assume ok: "setMessagesThrows w AddImageMessage = None \<and> setMessagesThrows w AddErrorMessage = None"
  then have run: "processImageUpload w file s =
      s\<lparr>storeCalls := storeCalls s @ [AddImageMessage, AddErrorMessage],
        messages := Some (orEmpty (messages s) @ [imageMessage w file, errorResponse w sizeTooLarge]),
        isTyping := False,
        toasts := toasts s @ [ToastError sizeTooLarge]\<rparr>"
    using big
    by (simp add: processImageUpload_def setMessages_accepts uploadFailed_accepts appendTo_def
        Let_def)
  show "messages (processImageUpload w file s) =
              Some (orEmpty (messages s) @ [imageMessage w file, errorResponse w sizeTooLarge])"
    by (simp add: run)
  show "toasts (processImageUpload w file s) = toasts s @ [ToastError sizeTooLarge]"
    by (simp add: run)
next
  show "sender (imageMessage w file) = User" by (simp add: imageMessage_def)
  show "type' (imageMessage w file) = Image" by (simp add: imageMessage_def)
  show "sender (errorResponse w sizeTooLarge) = AI" by (simp add: errorResponse_def)
  show "content (errorResponse w sizeTooLarge) =
                [0x274C] @ js '' Error processing image: '' @ sizeTooLarge"
    by (simp add: errorResponse_def)
  show "metadata (errorResponse w sizeTooLarge) =
                Some \<lparr>confidence = Some 0, needsPermission = None, actionItems = None,
                      disclaimer = Some (js ''Error occurred during file processing.'')\<rparr>"
    by (simp add: errorResponse_def)
  have "metadata (errorResponse w sizeTooLarge) \<noteq> metadata (billResponse w)"
    by (simp add: errorResponse_def billResponse_def)
  then show "errorResponse w sizeTooLarge \<noteq> billResponse w" by auto
next
  assume "startsWith (file_type file) (js ''image/'')"
  then show "processFileUpload w (file # others) s = processImageUpload w file s"
    by (simp add: processFileUpload_def)
qed

text \<open>
  An image of 10 MiB and one byte, uploaded to an empty chat with a store that accepts
  every write.
\<close>

theorem oversized_image_rejected_witness:
  "file_size largeImage > 10 * 1024 * 1024
   \<and> setMessagesThrows calmWorld AddImageMessage = None
   \<and> setMessagesThrows calmWorld AddErrorMessage = None
   \<and> timers (processImageUpload calmWorld largeImage (idleScreen [])) = []
   \<and> messages (processImageUpload calmWorld largeImage (idleScreen [])) =
       Some [imageMessage calmWorld largeImage, errorResponse calmWorld sizeTooLarge]
   \<and> toasts (processImageUpload calmWorld largeImage (idleScreen [])) = [ToastError sizeTooLarge]
   \<and> startsWith (file_type largeImage) (js ''image/'')
   \<and> processFileUpload calmWorld [largeImage] (idleScreen [])
       = processImageUpload calmWorld largeImage (idleScreen [])"
proof -
  have a: "file_size largeImage > 10 * 1024 * 1024" by (simp add: largeImage_def)
  have b: "setMessagesThrows calmWorld AddImageMessage = None" by (simp add: calmWorld_def)
  have c: "setMessagesThrows calmWorld AddErrorMessage = None" by (simp add: calmWorld_def)
  have i: "startsWith (file_type largeImage) (js ''image/'')"
    by (simp add: largeImage_def js_def)
  from oversized_image_rejected [of largeImage calmWorld "idleScreen []" "[]"] a b c i
  have "processFileUpload calmWorld [largeImage] (idleScreen [])
       = processImageUpload calmWorld largeImage (idleScreen [])
    \<and> timers (processImageUpload calmWorld largeImage (idleScreen [])) = timers (idleScreen [])
    \<and> messages (processImageUpload calmWorld largeImage (idleScreen [])) =
       Some (orEmpty (messages (idleScreen []))
             @ [imageMessage calmWorld largeImage, errorResponse calmWorld sizeTooLarge])
    \<and> toasts (processImageUpload calmWorld largeImage (idleScreen []))
       = toasts (idleScreen []) @ [ToastError sizeTooLarge]"
    by blast
  with a b c i show ?thesis by (simp add: idleScreen_def)
qed

text \<open>
  Without the condition on the store the statement fails. The same image is selected,
  the store accepts the image message and rejects the write of the error message: both
  writes are attempted, and the message list holds the user image message alone.
\<close>

theorem oversized_error_lost_counterexample:
  "file_size largeImage > 10 * 1024 * 1024
   \<and> startsWith (file_type largeImage) (js ''image/'')
   \<and> messages (processFileUpload (storeRejects AddErrorMessage calmWorld) [largeImage] (idleScreen []))
       = Some [imageMessage (storeRejects AddErrorMessage calmWorld) largeImage]
   \<and> sender (imageMessage (storeRejects AddErrorMessage calmWorld) largeImage) = User
   \<and> storeCalls (processFileUpload (storeRejects AddErrorMessage calmWorld) [largeImage]
        (idleScreen [])) = [AddImageMessage, AddErrorMessage]"
proof -
  have a: "file_size largeImage > 10 * 1024 * 1024" by (simp add: largeImage_def)
  have i: "startsWith (file_type largeImage) (js ''image/'')"
    by (simp add: largeImage_def js_def)
  have b: "setMessagesThrows (storeRejects AddErrorMessage calmWorld) AddImageMessage = None"
    by (simp add: calmWorld_def storeRejects_def)
  have c: "setMessagesThrows (storeRejects AddErrorMessage calmWorld) AddErrorMessage
      = Some quotaExceeded"
    by (simp add: storeRejects_def)
  have s0: "messages (idleScreen []) = None" "storeCalls (idleScreen []) = []"
    by (simp_all add: idleScreen_def)
  show ?thesis
    using a i
    by (simp add: processFileUpload_def processImageUpload_def setMessages_accepts [OF b]
        uploadFailed_rejects [OF c] appendTo_def Let_def s0 imageMessage_def)
qed

section \<open>The messaging application without an AI configuration\<close>

text \<open>
  C10. In the messaging application, for a send with a current chat selected and an input
  that is not empty after trimming, when the AI is not enabled or the API key is absent
  (or empty), \<open>handleSendMessage\<close> adds exactly the user message to the current chat
  and does nothing else: the other chats are as before, the generation function is not
  called, and no toast is shown.
\<close>

theorem handleSendMessage_without_ai:
  assumes "currentChatId a = Some chat" and "chat \<noteq> []" and "trim (messageInput a) \<noteq> []"
    and "\<not> enabled (aiConfig (settings a)) \<or> \<not> truthy (apiKey (aiConfig (settings a)))"
  shows "handleSendMessage generate a =
      addMessage \<lparr>new_content = trim (messageInput a), new_sender = User, new_chatId = chat,
                  new_metadata = None\<rparr> (a\<lparr>messageInput := []\<rparr>)
   \<and> app_messages (handleSendMessage generate a) chat =
       Some (orEmpty (app_messages a chat)
             @ [\<lparr>new_content = trim (messageInput a), new_sender = User, new_chatId = chat,
                  new_metadata = None\<rparr>])
   \<and> (other \<noteq> chat \<longrightarrow> app_messages (handleSendMessage generate a) other = app_messages a other)
   \<and> app_calls (handleSendMessage generate a) = app_calls a
   \<and> app_toasts (handleSendMessage generate a) = app_toasts a
   \<and> isGenerating (handleSendMessage generate a) = isGenerating a"
  using assms
  by (auto simp add: handleSendMessage_def addMessage_def Let_def)

text \<open>
  The input \<open>hello\<close> with the AI switched off, and with the AI switched on but no key.
\<close>

theorem handleSendMessage_without_ai_witness:
  "currentChatId (idleApp False (Some (js ''sk-1'')) (js ''hello'')) = Some (js ''chat-1'')
   \<and> js ''chat-1'' \<noteq> []
   \<and> trim (messageInput (idleApp False (Some (js ''sk-1'')) (js ''hello''))) \<noteq> []
   \<and> \<not> enabled (aiConfig (settings (idleApp False (Some (js ''sk-1'')) (js ''hello''))))
   \<and> app_messages (handleSendMessage appOffline (idleApp False (Some (js ''sk-1'')) (js ''hello'')))
        (js ''chat-1'')
       = Some [\<lparr>new_content = js ''hello'', new_sender = User, new_chatId = js ''chat-1'',
                new_metadata = None\<rparr>]
   \<and> app_calls (handleSendMessage appOffline (idleApp False (Some (js ''sk-1'')) (js ''hello''))) = []
   \<and> currentChatId (idleApp True None (js ''hello'')) = Some (js ''chat-1'')
   \<and> trim (messageInput (idleApp True None (js ''hello''))) \<noteq> []
   \<and> \<not> truthy (apiKey (aiConfig (settings (idleApp True None (js ''hello'')))))
   \<and> app_messages (handleSendMessage appOffline (idleApp True None (js ''hello''))) (js ''chat-1'')
       = Some [\<lparr>new_content = js ''hello'', new_sender = User, new_chatId = js ''chat-1'',
                new_metadata = None\<rparr>]
   \<and> app_calls (handleSendMessage appOffline (idleApp True None (js ''hello''))) = []"
proof -
  have ne: "js ''hello'' \<noteq> []" by (simp add: js_def)
  have t1: "trim (messageInput (idleApp False (Some (js ''sk-1'')) (js ''hello''))) = js ''hello''"
    by (simp add: idleApp_def trim_hello)
  have t2: "trim (messageInput (idleApp True None (js ''hello''))) = js ''hello''"
    by (simp add: idleApp_def trim_hello)
  have a1: "currentChatId (idleApp False (Some (js ''sk-1'')) (js ''hello'')) = Some (js ''chat-1'')"
    by (simp add: idleApp_def)
  have a2: "currentChatId (idleApp True None (js ''hello'')) = Some (js ''chat-1'')"
    by (simp add: idleApp_def)
  have b: "js ''chat-1'' \<noteq> []" by (simp add: js_def)
  have c1: "trim (messageInput (idleApp False (Some (js ''sk-1'')) (js ''hello''))) \<noteq> []"
    unfolding t1 by (rule ne)
  have c2: "trim (messageInput (idleApp True None (js ''hello''))) \<noteq> []"
    unfolding t2 by (rule ne)
  have d1: "\<not> enabled (aiConfig (settings (idleApp False (Some (js ''sk-1'')) (js ''hello''))))
      \<or> \<not> truthy (apiKey (aiConfig (settings (idleApp False (Some (js ''sk-1'')) (js ''hello'')))))"
    by (simp add: idleApp_def)
  have d2: "\<not> enabled (aiConfig (settings (idleApp True None (js ''hello''))))
      \<or> \<not> truthy (apiKey (aiConfig (settings (idleApp True None (js ''hello'')))))"
    by (simp add: idleApp_def truthy_def)
  have n1: "\<not> enabled (aiConfig (settings (idleApp False (Some (js ''sk-1'')) (js ''hello''))))"
    by (simp add: idleApp_def)
  have n2: "\<not> truthy (apiKey (aiConfig (settings (idleApp True None (js ''hello'')))))"
    by (simp add: idleApp_def truthy_def)
  have e1: "app_messages (idleApp False (Some (js ''sk-1'')) (js ''hello'')) (js ''chat-1'') = None"
    "app_calls (idleApp False (Some (js ''sk-1'')) (js ''hello'')) = []"
    by (simp_all add: idleApp_def)
  have e2: "app_messages (idleApp True None (js ''hello'')) (js ''chat-1'') = None"
    "app_calls (idleApp True None (js ''hello'')) = []"
    by (simp_all add: idleApp_def)
  from handleSendMessage_without_ai [OF a1 b c1 d1, of appOffline]
  have r1: "app_messages (handleSendMessage appOffline
        (idleApp False (Some (js ''sk-1'')) (js ''hello''))) (js ''chat-1'')
      = Some (orEmpty (app_messages (idleApp False (Some (js ''sk-1'')) (js ''hello''))
                (js ''chat-1''))
          @ [\<lparr>new_content = trim (messageInput (idleApp False (Some (js ''sk-1'')) (js ''hello''))),
               new_sender = User, new_chatId = js ''chat-1'', new_metadata = None\<rparr>])
    \<and> app_calls (handleSendMessage appOffline (idleApp False (Some (js ''sk-1'')) (js ''hello'')))
      = app_calls (idleApp False (Some (js ''sk-1'')) (js ''hello''))"
    by blast
  from handleSendMessage_without_ai [OF a2 b c2 d2, of appOffline]
  have r2: "app_messages (handleSendMessage appOffline (idleApp True None (js ''hello'')))
        (js ''chat-1'')
      = Some (orEmpty (app_messages (idleApp True None (js ''hello'')) (js ''chat-1''))
          @ [\<lparr>new_content = trim (messageInput (idleApp True None (js ''hello''))),
               new_sender = User, new_chatId = js ''chat-1'', new_metadata = None\<rparr>])
    \<and> app_calls (handleSendMessage appOffline (idleApp True None (js ''hello'')))
      = app_calls (idleApp True None (js ''hello''))"
    by blast
  show ?thesis
    using a1 b c1 n1 a2 c2 n2 r1 r2
    by (simp add: t1 t2 e1 e2)
qed

section \<open>How failures are reported\<close>

lemma sendMessage_rejections_toasted:
  "operation \<in> set (newStoreCalls s (sendMessage w p s)) \<Longrightarrow>
   setMessagesThrows w operation = Some kvError \<Longrightarrow>
   rejectionToast w p operation kvError \<in> set (newToasts s (sendMessage w p s))"
  by (auto simp add: newStoreCalls_def newToasts_def rejectionToast_def sendMessage_def
      generateReply_def deliverReply_def fallbackReply_def setMessages_def toastError_def
      consoleError_def Let_def
      split: option.splits prod.splits sum.splits if_splits)

lemma processImageUpload_rejections_toasted:
  "operation \<in> set (newStoreCalls s (processImageUpload w file s)) \<Longrightarrow>
   operation \<noteq> AddErrorMessage \<Longrightarrow>
   setMessagesThrows w operation = Some kvError \<Longrightarrow>
   rejectionToast w p operation kvError \<in> set (newToasts s (processImageUpload w file s))"
  by (auto simp add: newStoreCalls_def newToasts_def rejectionToast_def processImageUpload_def
      uploadFailed_def setMessages_def toastError_def consoleError_def Let_def
      split: option.splits prod.splits if_splits)

lemma billTimerFires_rejections_toasted:
  "operation \<in> set (newStoreCalls s (billTimerFires w s)) \<Longrightarrow>
   setMessagesThrows w operation = Some kvError \<Longrightarrow>
   rejectionToast w p operation kvError \<in> set (newToasts s (billTimerFires w s))"
  by (auto simp add: newStoreCalls_def newToasts_def rejectionToast_def billTimerFires_def
      setMessages_def toastError_def Let_def
      split: option.splits prod.splits list.splits if_splits)

lemma sendMessage_throw_reported:
  assumes "trim (message s) \<noteq> []" and "\<not> isSending s"
    and "setMessagesThrows w AddUserMessage = None"
    and "gatherContext w p (messages s) (trim (message s)) = (Inl error, calls)
         \<or> (gatherContext w p (messages s) (trim (message s)) = (Inr request, calls)
            \<and> generateResponse w (trim (message s)) request = Inl error)"
  shows "ToastError (js ''Failed to get AI response. Using fallback response.'')
           \<in> set (newToasts s (sendMessage w p s))
    \<and> console (sendMessage w p s) = console s @ [ConsoleErrorOf (js ''AI response error:'') error]"
  using assms
  by (auto simp add: newToasts_def sendMessage_def generateReply_def fallbackReply_def
      setMessages_def toastError_def consoleError_def Let_def
      split: option.splits)

lemma upload_error_only_logged:
  assumes "setMessagesThrows w AddImageMessage = None"
    and "file_size upload > 10 * 1024 * 1024 \<or> \<not> startsWith (file_type upload) (js ''image/'')"
    and "setMessagesThrows w AddErrorMessage = Some kvError"
  shows "newToasts s (processImageUpload w upload s) =
        [ToastError (if file_size upload > 10 * 1024 * 1024 then sizeTooLarge else invalidFileType)]
    \<and> console (processImageUpload w upload s) =
        console s @ [ConsoleError (handleKVError w kvError (js ''add error message'') None)]"
  using assms
  by (auto simp add: newToasts_def processImageUpload_def setMessages_accepts
      uploadFailed_rejects Let_def)

lemma validation_toasted:
  assumes "setMessagesThrows w AddImageMessage = None"
    and "file_size upload > 10 * 1024 * 1024 \<or> \<not> startsWith (file_type upload) (js ''image/'')"
  shows "ToastError (if file_size upload > 10 * 1024 * 1024 then sizeTooLarge
                     else invalidFileType)
           \<in> set (newToasts s (processImageUpload w upload s))"
  using assms
  by (auto simp add: newToasts_def processImageUpload_def setMessages_accepts uploadFailed_def
      setMessages_def toastError_def consoleError_def Let_def split: option.splits)

lemma other_file_dropped:
  "\<not> startsWith (file_type upload) (js ''image/'') \<Longrightarrow>
   processFileUpload w (upload # others) s = s"
  by (simp add: processFileUpload_def)

lemma hello_fallback_rejected:
  "sendMessage (storeRejects AddFallbackMessage (offline calmWorld)) consentingProps
     (idleScreen (js ''hello'')) =
   \<lparr>message = [], isTyping = False, isSending = False,
    messages = Some [userMessage (storeRejects AddFallbackMessage (offline calmWorld)) (js ''hello'')],
    storeCalls = [AddUserMessage, AddFallbackMessage],
    toasts = [ToastError (js ''Failed to add fallback message''),
              ToastError (js ''Failed to get AI response. Using fallback response.'')],
    console = [ConsoleErrorOf (js ''AI response error:'') networkDown],
    aiCalls = [InitializeConfig, DetectMood (js ''hello''),
               GetHyperlocalContext (js ''Bangalore'') (js ''hello''),
               GenerateResponse (js ''hello'') helloRequest],
    chatUpdates = [], timers = []\<rparr>"
proof -
  have ne: "js ''hello'' \<noteq> []" by (simp add: js_def)
  have m: "consent consentingProps (js ''moodDetection'')"
    by (simp add: consent_def consentingProps_def js_def)
  have l: "consent consentingProps (js ''locationServices'')"
    by (simp add: consent_def consentingProps_def)
  have g: "\<not> includes_js (toLowerCase (js ''hello'')) (js ''@sahaay'')"
    by (simp add: js_def toLowerCase_def)
  have ctx: "gatherContext (storeRejects AddFallbackMessage (offline calmWorld)) consentingProps
        None (js ''hello'')
      = (Inr helloRequest,
         [InitializeConfig, DetectMood (js ''hello''),
          GetHyperlocalContext (js ''Bangalore'') (js ''hello'')])"
    using m l g
    by (simp add: gatherContext_def helloRequest_def)
       (simp add: calmWorld_def storeRejects_def offline_def)
  have gen: "generateResponse (storeRejects AddFallbackMessage (offline calmWorld)) (js ''hello'')
       helloRequest = Inl networkDown"
    by (simp add: storeRejects_def offline_def)
  have u: "setMessagesThrows (storeRejects AddFallbackMessage (offline calmWorld)) AddUserMessage
      = None"
    by (simp add: calmWorld_def storeRejects_def offline_def)
  have r: "setMessagesThrows (storeRejects AddFallbackMessage (offline calmWorld))
      AddFallbackMessage = Some quotaExceeded"
    by (simp add: storeRejects_def)
  have h: "handleKVError (storeRejects AddFallbackMessage (offline calmWorld)) quotaExceeded
        (js ''add fallback message'') None = js ''Failed to add fallback message''"
    by (simp add: storeRejects_def offline_def calmWorld_def js_def)
  have s0: "message (idleScreen (js ''hello'')) = js ''hello''"
    "\<not> isSending (idleScreen (js ''hello''))"
    "messages (idleScreen (js ''hello'')) = None"
    by (simp_all add: idleScreen_def)
  show ?thesis
    using sendMessage_generation_throws
      [of "idleScreen (js ''hello'')" "storeRejects AddFallbackMessage (offline calmWorld)"
          consentingProps helloRequest
          "[InitializeConfig, DetectMood (js ''hello''),
            GetHyperlocalContext (js ''Bangalore'') (js ''hello'')]" networkDown]
      ne u ctx gen
    by (simp add: s0 trim_hello fallbackReply_rejects [OF r] h) (simp add: idleScreen_def)
qed

text \<open>
  C9, as amended. Every write to the store that \<open>sendMessage\<close> attempts and the store
  rejects is reported to the user by a toast with the message of the storage error; this
  includes the write of the fallback message. The same holds for the writes attempted by
  \<open>processImageUpload\<close>, except the write of the error message, and for the write of the
  bill response. When \<open>processImageUpload\<close> has stored the image message and the upload
  fails the size or the type check, the text of the failed check is shown in a toast,
  whatever the store does with the error message; when the store rejects the write of
  the error message, that toast is the only one, and the storage error is written to the
  error log alone. A selected file whose type does not start with \<open>image/\<close> never
  reaches these checks: \<open>processFileUpload\<close> drops it and leaves the state as it was,
  without toast, log line or message. A call of the AI service that throws during a send
  is logged, with the value thrown (of two rejecting enrichment calls, the one that
  rejected first), and reported by the toast of the fallback; a generation call that
  throws in the messaging application is reported by a toast. A failure of the
  initialisation of the AI service when the component mounts is written to the error log
  alone.
\<close>

theorem errors_reported:
  "(operation \<in> set (newStoreCalls s (sendMessage w p s))
      \<and> setMessagesThrows w operation = Some kvError
     \<longrightarrow> rejectionToast w p operation kvError \<in> set (newToasts s (sendMessage w p s)))
   \<and> (operation \<in> set (newStoreCalls s (processImageUpload w upload s))
      \<and> operation \<noteq> AddErrorMessage \<and> setMessagesThrows w operation = Some kvError
     \<longrightarrow> rejectionToast w p operation kvError \<in> set (newToasts s (processImageUpload w upload s)))
   \<and> (operation \<in> set (newStoreCalls s (billTimerFires w s))
      \<and> setMessagesThrows w operation = Some kvError
     \<longrightarrow> rejectionToast w p operation kvError \<in> set (newToasts s (billTimerFires w s)))
   \<and> (setMessagesThrows w AddImageMessage = None
      \<and> (file_size upload > 10 * 1024 * 1024 \<or> \<not> startsWith (file_type upload) (js ''image/''))
      \<and> setMessagesThrows w AddErrorMessage = Some kvError
     \<longrightarrow> newToasts s (processImageUpload w upload s) =
           [ToastError (if file_size upload > 10 * 1024 * 1024 then sizeTooLarge
                        else invalidFileType)]
         \<and> console (processImageUpload w upload s) =
             console s @ [ConsoleError (handleKVError w kvError (js ''add error message'') None)])
   \<and> (trim (message s) \<noteq> [] \<and> \<not> isSending s \<and> setMessagesThrows w AddUserMessage = None
      \<and> (gatherContext w p (messages s) (trim (message s)) = (Inl error, calls)
         \<or> (gatherContext w p (messages s) (trim (message s)) = (Inr request, calls)
            \<and> generateResponse w (trim (message s)) request = Inl error))
     \<longrightarrow> ToastError (js ''Failed to get AI response. Using fallback response.'')
           \<in> set (newToasts s (sendMessage w p s))
         \<and> console (sendMessage w p s) =
             console s @ [ConsoleErrorOf (js ''AI response error:'') error])
   \<and> (currentChatId a = Some chat \<and> chat \<noteq> [] \<and> trim (messageInput a) \<noteq> []
      \<and> enabled (aiConfig (settings a)) \<and> truthy (apiKey (aiConfig (settings a)))
      \<and> generate (appRequest a chat (trim (messageInput a))) = Inl error
     \<longrightarrow> app_toasts (handleSendMessage generate a) =
           app_toasts a @ [ToastError (js ''Failed to generate AI response'')])
   \<and> (initializeConfig w = Some error
     \<longrightarrow> toasts (initializeAI w s) = toasts s
         \<and> console (initializeAI w s) =
             console s @ [ConsoleErrorOf (js ''Failed to initialize AI service:'') error])
   \<and> (setMessagesThrows w AddImageMessage = None
      \<and> (file_size upload > 10 * 1024 * 1024 \<or> \<not> startsWith (file_type upload) (js ''image/''))
     \<longrightarrow> ToastError (if file_size upload > 10 * 1024 * 1024 then sizeTooLarge
                      else invalidFileType)
           \<in> set (newToasts s (processImageUpload w upload s)))
   \<and> (\<not> startsWith (file_type upload) (js ''image/'')
     \<longrightarrow> processFileUpload w (upload # others) s = s)"
proof -
  have app: "currentChatId a = Some chat \<and> chat \<noteq> [] \<and> trim (messageInput a) \<noteq> []
      \<and> enabled (aiConfig (settings a)) \<and> truthy (apiKey (aiConfig (settings a)))
      \<and> generate (appRequest a chat (trim (messageInput a))) = Inl error
     \<longrightarrow> app_toasts (handleSendMessage generate a) =
           app_toasts a @ [ToastError (js ''Failed to generate AI response'')]"
    by (simp add: handleSendMessage_generation_throws)
  have init: "initializeConfig w = Some error
     \<longrightarrow> toasts (initializeAI w s) = toasts s
         \<and> console (initializeAI w s) =
             console s @ [ConsoleErrorOf (js ''Failed to initialize AI service:'') error]"
    by (simp add: initializeAI_def consoleError_def Let_def)
  have send: "operation \<in> set (newStoreCalls s (sendMessage w p s))
      \<and> setMessagesThrows w operation = Some kvError
     \<longrightarrow> rejectionToast w p operation kvError \<in> set (newToasts s (sendMessage w p s))"
    using sendMessage_rejections_toasted by blast
  have upload: "operation \<in> set (newStoreCalls s (processImageUpload w upload s))
      \<and> operation \<noteq> AddErrorMessage \<and> setMessagesThrows w operation = Some kvError
     \<longrightarrow> rejectionToast w p operation kvError \<in> set (newToasts s (processImageUpload w upload s))"
    using processImageUpload_rejections_toasted by blast
  have timer: "operation \<in> set (newStoreCalls s (billTimerFires w s))
      \<and> setMessagesThrows w operation = Some kvError
     \<longrightarrow> rejectionToast w p operation kvError \<in> set (newToasts s (billTimerFires w s))"
    using billTimerFires_rejections_toasted by blast
  have logged: "setMessagesThrows w AddImageMessage = None
      \<and> (file_size upload > 10 * 1024 * 1024 \<or> \<not> startsWith (file_type upload) (js ''image/''))
      \<and> setMessagesThrows w AddErrorMessage = Some kvError
     \<longrightarrow> newToasts s (processImageUpload w upload s) =
           [ToastError (if file_size upload > 10 * 1024 * 1024 then sizeTooLarge
                        else invalidFileType)]
         \<and> console (processImageUpload w upload s) =
             console s @ [ConsoleError (handleKVError w kvError (js ''add error message'') None)]"
    using upload_error_only_logged [of w upload kvError s] by blast
  have thrown: "trim (message s) \<noteq> [] \<and> \<not> isSending s \<and> setMessagesThrows w AddUserMessage = None
      \<and> (gatherContext w p (messages s) (trim (message s)) = (Inl error, calls)
         \<or> (gatherContext w p (messages s) (trim (message s)) = (Inr request, calls)
            \<and> generateResponse w (trim (message s)) request = Inl error))
     \<longrightarrow> ToastError (js ''Failed to get AI response. Using fallback response.'')
           \<in> set (newToasts s (sendMessage w p s))
         \<and> console (sendMessage w p s) =
             console s @ [ConsoleErrorOf (js ''AI response error:'') error]"
    using sendMessage_throw_reported [of s w p error calls request] by blast
  have checked: "setMessagesThrows w AddImageMessage = None
      \<and> (file_size upload > 10 * 1024 * 1024 \<or> \<not> startsWith (file_type upload) (js ''image/''))
     \<longrightarrow> ToastError (if file_size upload > 10 * 1024 * 1024 then sizeTooLarge
                      else invalidFileType)
           \<in> set (newToasts s (processImageUpload w upload s))"
    using validation_toasted [of w upload s] by blast
  have dropped: "\<not> startsWith (file_type upload) (js ''image/'')
     \<longrightarrow> processFileUpload w (upload # others) s = s"
    using other_file_dropped by blast
  show ?thesis
    by (intro conjI send upload timer logged thrown app init checked dropped)
qed

text \<open>
  A rejected write of the fallback message is shown in a toast; a rejected write of the
  error message of an upload, and a failed initialisation, reach the error log and no
  toast. An image that is too large gives the toast of the size check with a store that
  accepts every write; a text file is dropped. When both enrichment calls reject, the
  hyperlocal one first, the send logs the error of the hyperlocal call.
\<close>

theorem errors_reported_witness:
  "AddFallbackMessage \<in> set (newStoreCalls (idleScreen (js ''hello''))
       (sendMessage (storeRejects AddFallbackMessage (offline calmWorld)) consentingProps
          (idleScreen (js ''hello''))))
   \<and> setMessagesThrows (storeRejects AddFallbackMessage (offline calmWorld)) AddFallbackMessage
       = Some quotaExceeded
   \<and> rejectionToast (storeRejects AddFallbackMessage (offline calmWorld)) consentingProps
        AddFallbackMessage quotaExceeded
       \<in> set (newToasts (idleScreen (js ''hello''))
           (sendMessage (storeRejects AddFallbackMessage (offline calmWorld)) consentingProps
              (idleScreen (js ''hello''))))
   \<and> setMessagesThrows (storeRejects AddErrorMessage calmWorld) AddImageMessage = None
   \<and> file_size largeImage > 10 * 1024 * 1024
   \<and> setMessagesThrows (storeRejects AddErrorMessage calmWorld) AddErrorMessage
       = Some quotaExceeded
   \<and> newToasts (idleScreen [])
        (processImageUpload (storeRejects AddErrorMessage calmWorld) largeImage (idleScreen []))
       = [ToastError sizeTooLarge]
   \<and> console (processImageUpload (storeRejects AddErrorMessage calmWorld) largeImage (idleScreen []))
       = [ConsoleError (js ''Failed to add error message'')]
   \<and> initializeConfig (calmWorld\<lparr>initializeConfig := Some networkDown\<rparr>) = Some networkDown
   \<and> toasts (initializeAI (calmWorld\<lparr>initializeConfig := Some networkDown\<rparr>) (idleScreen [])) = []
   \<and> console (initializeAI (calmWorld\<lparr>initializeConfig := Some networkDown\<rparr>) (idleScreen []))
       = [ConsoleErrorOf (js ''Failed to initialize AI service:'') networkDown]
   \<and> setMessagesThrows calmWorld AddImageMessage = None
   \<and> setMessagesThrows calmWorld AddErrorMessage = None
   \<and> ToastError sizeTooLarge
       \<in> set (newToasts (idleScreen []) (processImageUpload calmWorld largeImage (idleScreen [])))
   \<and> \<not> startsWith (file_type textFile) (js ''image/'')
   \<and> processFileUpload calmWorld [textFile] (idleScreen []) = idleScreen []
   \<and> trim (message (idleScreen (js ''hello''))) \<noteq> []
   \<and> \<not> isSending (idleScreen (js ''hello''))
   \<and> setMessagesThrows stormWorld AddUserMessage = None
   \<and> detectMood stormWorld (js ''hello'') = Inl networkDown
   \<and> getHyperlocalContext stormWorld (js ''Bangalore'') (js ''hello'') = Inl geoTimeout
   \<and> gatherContext stormWorld consentingProps (messages (idleScreen (js ''hello'')))
        (trim (message (idleScreen (js ''hello''))))
       = (Inl geoTimeout,
          [InitializeConfig, DetectMood (js ''hello''),
           GetHyperlocalContext (js ''Bangalore'') (js ''hello'')])
   \<and> ToastError (js ''Failed to get AI response. Using fallback response.'')
       \<in> set (newToasts (idleScreen (js ''hello''))
           (sendMessage stormWorld consentingProps (idleScreen (js ''hello''))))
   \<and> console (sendMessage stormWorld consentingProps (idleScreen (js ''hello'')))
       = [ConsoleErrorOf (js ''AI response error:'') geoTimeout]"
proof -
  let ?w1 = "storeRejects AddFallbackMessage (offline calmWorld)"
  let ?w2 = "storeRejects AddErrorMessage calmWorld"
  let ?w3 = "calmWorld\<lparr>initializeConfig := Some networkDown\<rparr>"
  have a1: "AddFallbackMessage \<in> set (newStoreCalls (idleScreen (js ''hello''))
       (sendMessage ?w1 consentingProps (idleScreen (js ''hello''))))"
    by (simp add: hello_fallback_rejected newStoreCalls_def) (simp add: idleScreen_def)
  have a2: "setMessagesThrows ?w1 AddFallbackMessage = Some quotaExceeded"
    by (simp add: storeRejects_def)
  have c1: "rejectionToast ?w1 consentingProps AddFallbackMessage quotaExceeded
       \<in> set (newToasts (idleScreen (js ''hello''))
           (sendMessage ?w1 consentingProps (idleScreen (js ''hello''))))"
    using errors_reported
      [where operation = AddFallbackMessage and s = "idleScreen (js ''hello'')" and w = ?w1
         and p = consentingProps and kvError = quotaExceeded, THEN conjunct1] a1 a2
    by blast
  have b1: "setMessagesThrows ?w2 AddImageMessage = None"
    by (simp add: storeRejects_def calmWorld_def)
  have b2: "file_size largeImage > 10 * 1024 * 1024
       \<or> \<not> startsWith (file_type largeImage) (js ''image/'')"
    by (simp add: largeImage_def)
  have b3: "setMessagesThrows ?w2 AddErrorMessage = Some quotaExceeded"
    by (simp add: storeRejects_def)
  have b4: "handleKVError ?w2 quotaExceeded (js ''add error message'') None
      = js ''Failed to add error message''"
    by (simp add: storeRejects_def calmWorld_def js_def)
  have c2: "newToasts (idleScreen []) (processImageUpload ?w2 largeImage (idleScreen []))
       = [ToastError (if file_size largeImage > 10 * 1024 * 1024 then sizeTooLarge
                      else invalidFileType)]
     \<and> console (processImageUpload ?w2 largeImage (idleScreen []))
       = console (idleScreen [])
         @ [ConsoleError (handleKVError ?w2 quotaExceeded (js ''add error message'') None)]"
    using errors_reported
      [where s = "idleScreen []" and w = ?w2 and upload = largeImage and kvError = quotaExceeded,
        THEN conjunct2, THEN conjunct2, THEN conjunct2, THEN conjunct1] b1 b2 b3
    by blast
  have c2': "newToasts (idleScreen []) (processImageUpload ?w2 largeImage (idleScreen []))
       = [ToastError sizeTooLarge]
     \<and> console (processImageUpload ?w2 largeImage (idleScreen []))
       = [ConsoleError (js ''Failed to add error message'')]"
    using c2 by (simp add: b4) (simp add: largeImage_def idleScreen_def)
  have d1: "initializeConfig ?w3 = Some networkDown" by simp
  have c3: "toasts (initializeAI ?w3 (idleScreen [])) = toasts (idleScreen [])
     \<and> console (initializeAI ?w3 (idleScreen []))
       = console (idleScreen [])
         @ [ConsoleErrorOf (js ''Failed to initialize AI service:'') networkDown]"
    using errors_reported
      [where s = "idleScreen []" and w = ?w3 and error = networkDown,
        THEN conjunct2, THEN conjunct2, THEN conjunct2, THEN conjunct2, THEN conjunct2,
        THEN conjunct2, THEN conjunct1] d1
    by blast
  have c3': "toasts (initializeAI ?w3 (idleScreen [])) = []
     \<and> console (initializeAI ?w3 (idleScreen []))
       = [ConsoleErrorOf (js ''Failed to initialize AI service:'') networkDown]"
    using c3 by (simp add: idleScreen_def)
  have b2': "file_size largeImage > 10 * 1024 * 1024"
    by (simp add: largeImage_def)
  have e1: "setMessagesThrows calmWorld AddImageMessage = None"
    by (simp add: calmWorld_def)
  have e2: "setMessagesThrows calmWorld AddErrorMessage = None"
    by (simp add: calmWorld_def)
  have c4: "ToastError (if file_size largeImage > 10 * 1024 * 1024 then sizeTooLarge
                        else invalidFileType)
       \<in> set (newToasts (idleScreen []) (processImageUpload calmWorld largeImage (idleScreen [])))"
    using errors_reported
      [where s = "idleScreen []" and w = calmWorld and upload = largeImage,
        THEN conjunct2, THEN conjunct2, THEN conjunct2, THEN conjunct2, THEN conjunct2,
        THEN conjunct2, THEN conjunct2, THEN conjunct1] e1 b2
    by blast
  have c4': "ToastError sizeTooLarge
       \<in> set (newToasts (idleScreen []) (processImageUpload calmWorld largeImage (idleScreen [])))"
    using c4 b2' by simp
  have f1: "\<not> startsWith (file_type textFile) (js ''image/'')"
    by (simp add: textFile_def js_def)
  have c5: "processFileUpload calmWorld [textFile] (idleScreen []) = idleScreen []"
    using errors_reported
      [where s = "idleScreen []" and w = calmWorld and upload = textFile and others = "[]",
        THEN conjunct2, THEN conjunct2, THEN conjunct2, THEN conjunct2, THEN conjunct2,
        THEN conjunct2, THEN conjunct2, THEN conjunct2] f1
    by blast
  have t: "trim (message (idleScreen (js ''hello''))) = js ''hello''"
    by (simp add: idleScreen_def trim_hello)
  have g1: "trim (message (idleScreen (js ''hello''))) \<noteq> []"
    unfolding t by (simp add: js_def)
  have g2: "\<not> isSending (idleScreen (js ''hello''))"
    by (simp add: idleScreen_def)
  have g3: "setMessagesThrows stormWorld AddUserMessage = None"
    by (simp add: stormWorld_def calmWorld_def)
  have g4: "detectMood stormWorld (js ''hello'') = Inl networkDown"
    by (simp add: stormWorld_def moodFails_def)
  have g5: "getHyperlocalContext stormWorld (js ''Bangalore'') (js ''hello'') = Inl geoTimeout"
    by (simp add: stormWorld_def hyperlocalDown_def)
  have g0: "initializeConfig stormWorld = None"
    by (simp add: stormWorld_def calmWorld_def)
  have g7: "locationRejectsFirst stormWorld"
    by (simp add: stormWorld_def)
  have m: "consent consentingProps (js ''moodDetection'')"
    by (simp add: consent_def consentingProps_def js_def)
  have l: "consent consentingProps (js ''locationServices'')"
    by (simp add: consent_def consentingProps_def)
  have g6: "gatherContext stormWorld consentingProps (messages (idleScreen (js ''hello'')))
        (trim (message (idleScreen (js ''hello''))))
       = (Inl geoTimeout,
          [InitializeConfig, DetectMood (js ''hello''),
           GetHyperlocalContext (js ''Bangalore'') (js ''hello'')])"
    unfolding t using m l g0 g7
    by (simp add: gatherContext_def g4 g5 Let_def)
  have c6: "ToastError (js ''Failed to get AI response. Using fallback response.'')
       \<in> set (newToasts (idleScreen (js ''hello''))
           (sendMessage stormWorld consentingProps (idleScreen (js ''hello''))))
     \<and> console (sendMessage stormWorld consentingProps (idleScreen (js ''hello'')))
       = console (idleScreen (js ''hello''))
         @ [ConsoleErrorOf (js ''AI response error:'') geoTimeout]"
    using errors_reported
      [where s = "idleScreen (js ''hello'')" and w = stormWorld and p = consentingProps
         and error = geoTimeout
         and calls = "[InitializeConfig, DetectMood (js ''hello''),
           GetHyperlocalContext (js ''Bangalore'') (js ''hello'')]",
        THEN conjunct2, THEN conjunct2, THEN conjunct2, THEN conjunct2, THEN conjunct1]
      g1 g2 g3 g6
    by blast
  have c6': "ToastError (js ''Failed to get AI response. Using fallback response.'')
       \<in> set (newToasts (idleScreen (js ''hello''))
           (sendMessage stormWorld consentingProps (idleScreen (js ''hello''))))
     \<and> console (sendMessage stormWorld consentingProps (idleScreen (js ''hello'')))
       = [ConsoleErrorOf (js ''AI response error:'') geoTimeout]"
    using c6 by (simp add: idleScreen_def)
  from a1 a2 c1 b1 b2' b3 c2' d1 c3' e1 e2 c4' f1 c5 g1 g2 g3 g4 g5 g6 c6'
  show ?thesis by blast
qed

text \<open>
  As first stated, a failing write of the fallback message would be logged and not shown
  to the user. The generation call throws and the store rejects the write of the
  fallback: the message of the storage error is the first of the two toasts, and the
  error log holds the error of the AI service alone.
\<close>

theorem fallback_rejection_toasted_counterexample:
  "generateResponse (storeRejects AddFallbackMessage (offline calmWorld)) (js ''hello'') helloRequest
       = Inl networkDown
   \<and> setMessagesThrows (storeRejects AddFallbackMessage (offline calmWorld)) AddFallbackMessage
       = Some quotaExceeded
   \<and> storeCalls (sendMessage (storeRejects AddFallbackMessage (offline calmWorld)) consentingProps
        (idleScreen (js ''hello''))) = [AddUserMessage, AddFallbackMessage]
   \<and> handleKVError (storeRejects AddFallbackMessage (offline calmWorld)) quotaExceeded
        (js ''add fallback message'') None = js ''Failed to add fallback message''
   \<and> toasts (sendMessage (storeRejects AddFallbackMessage (offline calmWorld)) consentingProps
        (idleScreen (js ''hello''))) =
       [ToastError (js ''Failed to add fallback message''),
        ToastError (js ''Failed to get AI response. Using fallback response.'')]
   \<and> console (sendMessage (storeRejects AddFallbackMessage (offline calmWorld)) consentingProps
        (idleScreen (js ''hello''))) = [ConsoleErrorOf (js ''AI response error:'') networkDown]"
proof -
  have ne: "js ''hello'' \<noteq> []" by (simp add: js_def)
  have m: "consent consentingProps (js ''moodDetection'')"
    by (simp add: consent_def consentingProps_def js_def)
  have l: "consent consentingProps (js ''locationServices'')"
    by (simp add: consent_def consentingProps_def)
  have g: "\<not> includes_js (toLowerCase (js ''hello'')) (js ''@sahaay'')"
    by (simp add: js_def toLowerCase_def)
  have ctx: "gatherContext (storeRejects AddFallbackMessage (offline calmWorld)) consentingProps
        None (js ''hello'')
      = (Inr helloRequest,
         [InitializeConfig, DetectMood (js ''hello''),
          GetHyperlocalContext (js ''Bangalore'') (js ''hello'')])"
    using m l g
    by (simp add: gatherContext_def helloRequest_def)
       (simp add: calmWorld_def storeRejects_def offline_def)
  have gen: "generateResponse (storeRejects AddFallbackMessage (offline calmWorld)) (js ''hello'')
       helloRequest = Inl networkDown"
    by (simp add: storeRejects_def offline_def)
  have u: "setMessagesThrows (storeRejects AddFallbackMessage (offline calmWorld)) AddUserMessage
      = None"
    by (simp add: calmWorld_def storeRejects_def offline_def)
  have r: "setMessagesThrows (storeRejects AddFallbackMessage (offline calmWorld))
      AddFallbackMessage = Some quotaExceeded"
    by (simp add: storeRejects_def)
  have h: "handleKVError (storeRejects AddFallbackMessage (offline calmWorld)) quotaExceeded
        (js ''add fallback message'') None = js ''Failed to add fallback message''"
    by (simp add: storeRejects_def offline_def calmWorld_def js_def)
  have s0: "message (idleScreen (js ''hello'')) = js ''hello''"
    "\<not> isSending (idleScreen (js ''hello''))"
    "messages (idleScreen (js ''hello'')) = None"
    "aiCalls (idleScreen (js ''hello'')) = []"
    "storeCalls (idleScreen (js ''hello'')) = []"
    "toasts (idleScreen (js ''hello'')) = []"
    "console (idleScreen (js ''hello'')) = []"
    by (simp_all add: idleScreen_def)
  have chat: "sendMessage (storeRejects AddFallbackMessage (offline calmWorld)) consentingProps
        (idleScreen (js ''hello'')) =
      (fallbackReply (storeRejects AddFallbackMessage (offline calmWorld)) (js ''hello'') networkDown
         ((idleScreen (js ''hello''))\<lparr>isSending := True,
             storeCalls := [AddUserMessage],
             messages := Some [userMessage (storeRejects AddFallbackMessage (offline calmWorld))
                                 (js ''hello'')],
             message := [], isTyping := True,
             aiCalls := [InitializeConfig, DetectMood (js ''hello''),
                GetHyperlocalContext (js ''Bangalore'') (js ''hello''),
                GenerateResponse (js ''hello'') helloRequest]\<rparr>))
      \<lparr>isTyping := False, isSending := False\<rparr>"
    using sendMessage_generation_throws
      [of "idleScreen (js ''hello'')" "storeRejects AddFallbackMessage (offline calmWorld)"
          consentingProps helloRequest
          "[InitializeConfig, DetectMood (js ''hello''),
            GetHyperlocalContext (js ''Bangalore'') (js ''hello'')]" networkDown]
      ne u ctx gen
    by (simp add: s0 trim_hello)
  show ?thesis
    by (simp add: gen r h chat fallbackReply_rejects [OF r] s0)
qed

end
